theory Spec2Isabelle
  imports Complex_Main
begin

section \<open>Data model\<close>

text \<open>
  The script \<^verbatim>\<open>run.py\<close> drives a walk-forward backtest over pandas data frames.
  Timestamps are counted in whole hours (\<^verbatim>\<open>pd.Timedelta(hours=23)\<close> is \<open>+ 23\<close>),
  a floating-point cell is a real number or NaN (\<open>None\<close>); rounding is not modelled.
\<close>

type_synonym cell = "real option"

text \<open>One row of \<^verbatim>\<open>df_train\<close> / \<^verbatim>\<open>df_test\<close>: the index label, the
  \<^verbatim>\<open>'Price'\<close> column and the remaining (exogenous) columns.\<close>

record obs =
  ts :: int
  price :: cell
  exog :: "cell list"

type_synonym frame = "obs list"

text \<open>The data frames \<^verbatim>\<open>forecast\<close> and \<^verbatim>\<open>real_values\<close>: index labels, column
  names and one row of cells per label.\<close>

record matrix =
  index :: "int list"
  columns :: "string list"
  rows :: "cell list list"

text \<open>A numpy array of dimension 0, 1 or 2, as handed to the metric functions.\<close>

datatype ndarray = Arr0 cell | Arr1 "cell list" | Arr2 "cell list list"

text \<open>The namespace returned by \<^verbatim>\<open>parse_arguments\<close>.\<close>

record args =
  dataset :: string
  years_test :: int
  calibration_window :: int
  begin_test_date :: "string option"
  end_test_date :: "string option"

text \<open>
  Exceptions. \<open>ValueError_reshape\<close> is numpy's error of \<^verbatim>\<open>reshape(-1, 24)\<close>,
  \<open>ValueError_setitem\<close> pandas' error of a row assignment whose value does not fit,
  \<open>Raised\<close> an exception of class \<^verbatim>\<open>Exception\<close> raised inside a collaborator of
  \<^verbatim>\<open>epftoolbox\<close>, \<open>SystemExit\<close> the exception by which \<^verbatim>\<open>argparse\<close> ends the
  process, with its exit status. \<open>NoSuchObject\<close> stands for a reference to an object
  that was never created; Python has no such references and \<open>main\<close> never produces one.
  An interrupt from outside the script (\<^verbatim>\<open>KeyboardInterrupt\<close>) is not modelled.
\<close>

datatype exn =
    ValueError_reshape
  | ValueError_setitem
  | Raised string
  | SystemExit int
  | NoSuchObject

text \<open>The exceptions of class \<^verbatim>\<open>Exception\<close>, those that \<^verbatim>\<open>except Exception\<close>
  catches: \<^verbatim>\<open>SystemExit\<close> derives from \<^verbatim>\<open>BaseException\<close> only.\<close>

fun is_Exception :: "exn \<Rightarrow> bool" where
  "is_Exception (SystemExit status) = False"
| "is_Exception e = True"

text \<open>The collaborators imported from \<^verbatim>\<open>epftoolbox\<close>; \<open>Inl\<close> is a raised
  exception. The model object has a state of type \<open>'s\<close> that a call may change.\<close>

record 's toolbox =
  read_data :: "string \<Rightarrow> int \<Rightarrow> string \<Rightarrow> string option \<Rightarrow> string option
                \<Rightarrow> string + frame \<times> frame"
  LEAR :: "int \<Rightarrow> string + 's"
  recalibrate_and_forecast_next_day ::
    "'s \<Rightarrow> frame \<Rightarrow> int \<Rightarrow> int \<Rightarrow> (string + cell list) \<times> 's"
  MAE :: "ndarray \<Rightarrow> ndarray \<Rightarrow> string + real"
  sMAPE :: "ndarray \<Rightarrow> ndarray \<Rightarrow> string + real"

text \<open>One call of \<^verbatim>\<open>model.recalibrate_and_forecast_next_day\<close>, with its keyword
  arguments and what it gave back.\<close>

record model_call =
  call_df :: frame
  call_next_day_date :: int
  call_calibration_window :: int
  call_result :: "string + cell list"

text \<open>The texts printed and logged, by content (string and number formatting is not
  modelled).\<close>

datatype message =
    FuncStart string
  | FuncEnd string
  | SystemInfo string
  | StartingScript string
  | TestYears int
  | CalibrationWindow int
  | ProcessingDate int
  | Progress int real real
  | Completed
  | ErrorOccurred exn
  | Traceback exn

text \<open>The calls made to the \<^verbatim>\<open>logging\<close> module, in order.\<close>

datatype log_call = BasicConfig string | Info message | Error message

text \<open>
  The state of the process: the data frames, the matrices and the model objects that
  exist (a reference is a position in the list), the calls made to the model, the lines
  printed, the calls made to \<^verbatim>\<open>logging\<close>, and the data files written.
\<close>

record 's world =
  frames :: "frame list"
  mats :: "matrix list"
  models :: "'s list"
  model_calls :: "model_call list"
  stdout :: "message list"
  logging :: "log_call list"
  files :: "(string \<times> matrix) list"

definition w_init :: "'s world" where
  "w_init = \<lparr>frames = [], mats = [], models = [], model_calls = [], stdout = [],
             logging = [], files = []\<rparr>"

section \<open>Statements, exceptions and the store\<close>

type_synonym ('a, 's) M = "'s world \<Rightarrow> (exn + 'a) \<times> 's world"

definition returnM :: "'a \<Rightarrow> ('a, 's) M" where
  "returnM x = (\<lambda>w. (Inr x, w))"

definition raiseM :: "exn \<Rightarrow> ('a, 's) M" where
  "raiseM e = (\<lambda>w. (Inl e, w))"

definition bindM :: "('a, 's) M \<Rightarrow> ('a \<Rightarrow> ('b, 's) M) \<Rightarrow> ('b, 's) M" where
  "bindM m f = (\<lambda>w. case m w of (Inl e, w') \<Rightarrow> (Inl e, w') | (Inr x, w') \<Rightarrow> f x w')"

text \<open>\<^verbatim>\<open>try: m except Exception as e: h(e)\<close>: an exception that is not of class
  \<^verbatim>\<open>Exception\<close> passes through.\<close>

definition try_except :: "('a, 's) M \<Rightarrow> (exn \<Rightarrow> ('a, 's) M) \<Rightarrow> ('a, 's) M" where
  "try_except m h =
     (\<lambda>w. case m w of
            (Inl e, w') \<Rightarrow> if is_Exception e then h e w' else (Inl e, w')
          | (Inr x, w') \<Rightarrow> (Inr x, w'))"

definition lift_call :: "string + 'a \<Rightarrow> ('a, 's) M" where
  "lift_call r = (case r of Inl e \<Rightarrow> raiseM (Raised e) | Inr x \<Rightarrow> returnM x)"

definition logging_info :: "message \<Rightarrow> (unit, 's) M" where
  "logging_info m = (\<lambda>w. (Inr (), w\<lparr>logging := logging w @ [Info m]\<rparr>))"

definition logging_error :: "message \<Rightarrow> (unit, 's) M" where
  "logging_error m = (\<lambda>w. (Inr (), w\<lparr>logging := logging w @ [Error m]\<rparr>))"

definition print :: "message \<Rightarrow> (unit, 's) M" where
  "print m = (\<lambda>w. (Inr (), w\<lparr>stdout := stdout w @ [m]\<rparr>))"

definition get_frame :: "nat \<Rightarrow> (frame, 's) M" where
  "get_frame a = (\<lambda>w. if a < length (frames w) then (Inr (frames w ! a), w)
                       else (Inl NoSuchObject, w))"

definition new_frame :: "frame \<Rightarrow> (nat, 's) M" where
  "new_frame f = (\<lambda>w. (Inr (length (frames w)), w\<lparr>frames := frames w @ [f]\<rparr>))"

definition set_frame :: "nat \<Rightarrow> frame \<Rightarrow> (unit, 's) M" where
  "set_frame a f = (\<lambda>w. if a < length (frames w)
                         then (Inr (), w\<lparr>frames := (frames w)[a := f]\<rparr>)
                         else (Inl NoSuchObject, w))"

definition get_mat :: "nat \<Rightarrow> (matrix, 's) M" where
  "get_mat a = (\<lambda>w. if a < length (mats w) then (Inr (mats w ! a), w)
                     else (Inl NoSuchObject, w))"

definition new_mat :: "matrix \<Rightarrow> (nat, 's) M" where
  "new_mat m = (\<lambda>w. (Inr (length (mats w)), w\<lparr>mats := mats w @ [m]\<rparr>))"

definition set_mat :: "nat \<Rightarrow> matrix \<Rightarrow> (unit, 's) M" where
  "set_mat a m = (\<lambda>w. if a < length (mats w)
                       then (Inr (), w\<lparr>mats := (mats w)[a := m]\<rparr>)
                       else (Inl NoSuchObject, w))"

section \<open>Helpers of the script\<close>

text \<open>The decorator \<^verbatim>\<open>log_function_info\<close>: the end line is logged only when the
  wrapped function returns.\<close>

definition log_function_info :: "string \<Rightarrow> ('a, 's) M \<Rightarrow> ('a, 's) M" where
  "log_function_info func_name func =
     bindM (logging_info (FuncStart func_name)) (\<lambda>_.
     bindM func (\<lambda>result.
     bindM (logging_info (FuncEnd func_name)) (\<lambda>_.
     returnM result)))"

definition setup_logging :: "(unit, 's) M" where
  "setup_logging = (\<lambda>w. (Inr (), w\<lparr>logging := logging w @ [BasicConfig ''forecasting.log'']\<rparr>))"

definition log_system_info :: "(unit, 's) M" where
  "log_system_info =
     bindM (logging_info (SystemInfo ''Python Version'')) (\<lambda>_.
     bindM (logging_info (SystemInfo ''Platform'')) (\<lambda>_.
     bindM (logging_info (SystemInfo ''Operating System'')) (\<lambda>_.
     bindM (logging_info (SystemInfo ''Script Path'')) (\<lambda>_.
     bindM (logging_info (SystemInfo ''Execution Script Name'')) (\<lambda>_.
     bindM (logging_info (SystemInfo ''Library Script Name'')) (\<lambda>_.
     bindM (logging_info (SystemInfo ''Library Script Path'')) (\<lambda>_.
     bindM (logging_info (SystemInfo ''Library Script Name'')) (\<lambda>_.
     bindM (logging_info (SystemInfo ''Library Script Path'')) (\<lambda>_.
     bindM (logging_info (SystemInfo ''Library Script Name'')) (\<lambda>_.
     logging_info (SystemInfo ''Library Script Path'')))))))))))"

text \<open>Python's \<^verbatim>\<open>str\<close> of an integer, as the f-string of the file name uses it.\<close>

definition digit :: "nat \<Rightarrow> char" where
  "digit n = ''0123456789'' ! (n mod 10)"

function str_nat :: "nat \<Rightarrow> string" where
  "str_nat n = (if n < 10 then [digit n] else str_nat (n div 10) @ [digit n])"
  by pat_completeness auto
termination
  by (relation "measure id") auto

definition str_int :: "int \<Rightarrow> string" where
  "str_int i = (if i < 0 then CHR ''-'' # str_nat (nat (- i)) else str_nat (nat i))"

text \<open>
  \<^verbatim>\<open>parse_arguments\<close>: \<^verbatim>\<open>argparse\<close> either returns the namespace or ends the
  process through \<^verbatim>\<open>sys.exit\<close>, which raises \<^verbatim>\<open>SystemExit\<close>: with status 2 for a
  command line it rejects (\<^verbatim>\<open>--years_test two\<close>), with status 0 after \<^verbatim>\<open>--help\<close>.
  What \<^verbatim>\<open>argparse\<close> makes of the command line is the parameter \<open>cl\<close>.
\<close>

definition parse_arguments :: "int + args \<Rightarrow> (args, 's) M" where
  "parse_arguments cl = (case cl of Inl status \<Rightarrow> raiseM (SystemExit status) | Inr a \<Rightarrow> returnM a)"

text \<open>\<^verbatim>\<open>load_data\<close>: the two frames returned by \<^verbatim>\<open>read_data\<close> become objects.
  \<^verbatim>\<open>os.path.join\<close> is the POSIX one.\<close>

definition load_data :: "'s toolbox \<Rightarrow> args \<Rightarrow> (nat \<times> nat, 's) M" where
  "load_data tb a =
     log_function_info ''load_data''
       (bindM (lift_call (read_data tb (dataset a) (years_test a) ''./datasets''
                 (begin_test_date a) (end_test_date a))) (\<lambda>(tr, te).
        bindM (new_frame tr) (\<lambda>df_train.
        bindM (new_frame te) (\<lambda>df_test.
        returnM (df_train, df_test)))))"

definition create_forecast_file_name :: "args \<Rightarrow> (string, 's) M" where
  "create_forecast_file_name a =
     log_function_info ''create_forecast_file_name''
       (returnM (''fc_nl_dat'' @ dataset a @ ''_YT'' @ str_int (years_test a)
                 @ ''_CW'' @ str_int (calibration_window a) @ ''.csv''))"

definition create_forecast_file_path :: "args \<Rightarrow> (string, 's) M" where
  "create_forecast_file_path a =
     log_function_info ''create_forecast_file_path''
       (bindM (create_forecast_file_name a) (\<lambda>name.
        returnM (''./experimental_files/'' @ name)))"

section \<open>Label-based indexing\<close>

text \<open>
  The frames come from \<^verbatim>\<open>read_data\<close> with a strictly increasing hourly index. On
  such an index a label slice selects the rows whose label lies in the closed interval;
  the definitions below are that selection.
\<close>

text \<open>\<^verbatim>\<open>df.loc[:hi, :]\<close> on a frame.\<close>

definition loc_upto_frame :: "frame \<Rightarrow> int \<Rightarrow> frame" where
  "loc_upto_frame df hi = filter (\<lambda>r. ts r \<le> hi) df"

text \<open>\<^verbatim>\<open>df.loc[lo:hi, 'Price'] = np.NaN\<close>.\<close>

definition mask_price :: "int \<Rightarrow> int \<Rightarrow> frame \<Rightarrow> frame" where
  "mask_price lo hi df = map (\<lambda>r. if lo \<le> ts r \<and> ts r \<le> hi then r\<lparr>price := None\<rparr> else r) df"

text \<open>\<^verbatim>\<open>m.loc[:hi]\<close> on a matrix.\<close>

definition loc_upto_matrix :: "matrix \<Rightarrow> int \<Rightarrow> matrix" where
  "loc_upto_matrix m hi =
     m\<lparr>index := filter (\<lambda>d. d \<le> hi) (index m),
       rows := map snd (filter (\<lambda>(d, r). d \<le> hi) (zip (index m) (rows m)))\<rparr>"

text \<open>
  \<^verbatim>\<open>m.loc[date, :] = Yp\<close> on a matrix of one object-typed block. A value with as
  many entries as there are columns replaces every row labelled \<open>date\<close>; a one-element
  array is broadcast over the row by numpy; any other length is a ValueError. A label
  that is not in the index appends a row, which must have the right length.
\<close>

definition loc_set_row :: "matrix \<Rightarrow> int \<Rightarrow> cell list \<Rightarrow> exn + matrix" where
  "loc_set_row m date Yp =
     (let n = length (columns m) in
      if date \<in> set (index m) then
        (if length Yp = n then
           Inr (m\<lparr>rows := map2 (\<lambda>d r. if d = date then Yp else r) (index m) (rows m)\<rparr>)
         else if length Yp = 1 then
           Inr (m\<lparr>rows := map2 (\<lambda>d r. if d = date then replicate n (hd Yp) else r)
                             (index m) (rows m)\<rparr>)
         else Inl ValueError_setitem)
      else
        (if length Yp = n then Inr (m\<lparr>index := index m @ [date], rows := rows m @ [Yp]\<rparr>)
         else Inl ValueError_setitem))"

text \<open>\<^verbatim>\<open>.values.squeeze()\<close> of a matrix with \<open>n\<close> columns: axes of length one
  are dropped.\<close>

definition squeeze :: "nat \<Rightarrow> cell list list \<Rightarrow> ndarray" where
  "squeeze n rs =
     (if length rs = 1 \<and> n = 1 then Arr0 (hd (hd rs))
      else if length rs = 1 then Arr1 (hd rs)
      else if n = 1 then Arr1 (map hd rs)
      else Arr2 rs)"

text \<open>\<^verbatim>\<open>index[::24]\<close> and \<^verbatim>\<open>values.reshape(-1, 24)\<close> (the latter for a length
  that is a multiple of 24).\<close>

definition every24 :: "'a list \<Rightarrow> 'a list" where
  "every24 xs = map (\<lambda>i. xs ! (24 * i)) [0..<(length xs + 23) div 24]"

definition reshape24 :: "'a list \<Rightarrow> 'a list list" where
  "reshape24 xs = map (\<lambda>i. take 24 (drop (24 * i) xs)) [0..<length xs div 24]"

definition h_columns :: "string list" where
  "h_columns = map (\<lambda>k. ''h'' @ str_nat k) [0..<24]"

section \<open>process\_date\<close>

text \<open>Line 96: \<^verbatim>\<open>pd.concat\<close> builds a new frame.\<close>

definition concat_available :: "nat \<Rightarrow> nat \<Rightarrow> int \<Rightarrow> (nat, 's) M" where
  "concat_available df_train df_test date =
     bindM (get_frame df_train) (\<lambda>tr.
     bindM (get_frame df_test) (\<lambda>te.
     new_frame (tr @ loc_upto_frame te (date + 23))))"

text \<open>Line 97: the new frame is changed in place.\<close>

definition mask_next_day :: "nat \<Rightarrow> int \<Rightarrow> (unit, 's) M" where
  "mask_next_day data_available date =
     bindM (get_frame data_available) (\<lambda>da.
     set_frame data_available (mask_price date (date + 23) da))"

text \<open>Lines 98 to 102.\<close>

definition call_model :: "'s toolbox \<Rightarrow> nat \<Rightarrow> nat \<Rightarrow> int \<Rightarrow> int \<Rightarrow> (cell list, 's) M" where
  "call_model tb model df date cw =
     (\<lambda>w. if model < length (models w) \<and> df < length (frames w) then
             (let (res, m') = recalibrate_and_forecast_next_day tb (models w ! model)
                                (frames w ! df) date cw;
                  w' = w\<lparr>models := (models w)[model := m'],
                         model_calls := model_calls w @
                           [\<lparr>call_df = frames w ! df, call_next_day_date = date,
                             call_calibration_window = cw, call_result = res\<rparr>]\<rparr>
              in case res of Inl e \<Rightarrow> (Inl (Raised e), w') | Inr Yp \<Rightarrow> (Inr Yp, w'))
           else (Inl NoSuchObject, w))"

text \<open>Line 103.\<close>

definition write_row :: "nat \<Rightarrow> int \<Rightarrow> cell list \<Rightarrow> (unit, 's) M" where
  "write_row forecast date Yp =
     bindM (get_mat forecast) (\<lambda>F.
     case loc_set_row F date Yp of
       Inl e \<Rightarrow> raiseM e
     | Inr F' \<Rightarrow> set_mat forecast F')"

text \<open>Lines 104 and 105, up to the factor 100: \<^verbatim>\<open>np.mean\<close> of the metric of the
  two prefixes.\<close>

definition prefix_metric ::
  "(ndarray \<Rightarrow> ndarray \<Rightarrow> string + real) \<Rightarrow> nat \<Rightarrow> nat \<Rightarrow> int \<Rightarrow> (real, 's) M" where
  "prefix_metric metric forecast real_values date =
     bindM (get_mat forecast) (\<lambda>F.
     bindM (get_mat real_values) (\<lambda>R.
     lift_call (metric (squeeze (length (columns F)) (rows (loc_upto_matrix F date)))
                       (Arr2 (rows (loc_upto_matrix R date))))))"

definition process_date ::
  "'s toolbox \<Rightarrow> args \<Rightarrow> nat \<Rightarrow> nat \<Rightarrow> nat \<Rightarrow> nat \<Rightarrow> nat \<Rightarrow> int \<Rightarrow> (unit, 's) M" where
  "process_date tb a df_train df_test forecast real_values model date =
     log_function_info ''process_date''
       (bindM (logging_info (ProcessingDate date)) (\<lambda>_.
        bindM (concat_available df_train df_test date) (\<lambda>data_available.
        bindM (mask_next_day data_available date) (\<lambda>_.
        bindM (call_model tb model data_available date (calibration_window a)) (\<lambda>Yp.
        bindM (write_row forecast date Yp) (\<lambda>_.
        bindM (prefix_metric (MAE tb) forecast real_values date) (\<lambda>mae.
        bindM (prefix_metric (sMAPE tb) forecast real_values date) (\<lambda>s.
        bindM (print (Progress date (s * 100) mae)) (\<lambda>_.
        logging_info (Progress date (s * 100) mae))))))))))"

section \<open>main\<close>

text \<open>The loop of lines 131 and 132.\<close>

fun for_dates ::
  "'s toolbox \<Rightarrow> args \<Rightarrow> nat \<Rightarrow> nat \<Rightarrow> nat \<Rightarrow> nat \<Rightarrow> nat \<Rightarrow> int list \<Rightarrow> (unit, 's) M" where
  "for_dates tb a df_train df_test forecast real_values model [] = returnM ()"
| "for_dates tb a df_train df_test forecast real_values model (date # dates) =
     bindM (process_date tb a df_train df_test forecast real_values model date) (\<lambda>_.
     for_dates tb a df_train df_test forecast real_values model dates)"

text \<open>Line 124.\<close>

definition new_forecast :: "nat \<Rightarrow> (nat, 's) M" where
  "new_forecast df_test =
     bindM (get_frame df_test) (\<lambda>te.
     new_mat \<lparr>index = every24 (map ts te), columns = h_columns,
              rows = replicate (length (every24 (map ts te))) (replicate 24 None)\<rparr>)"

text \<open>Lines 125 and 126.\<close>

definition new_real_values :: "nat \<Rightarrow> nat \<Rightarrow> (nat, 's) M" where
  "new_real_values df_test forecast =
     bindM (get_frame df_test) (\<lambda>te.
     if length te mod 24 \<noteq> 0 then raiseM ValueError_reshape
     else bindM (get_mat forecast) (\<lambda>F.
          new_mat \<lparr>index = index F, columns = columns F, rows = reshape24 (map price te)\<rparr>))"

text \<open>Line 129.\<close>

definition new_model :: "'s toolbox \<Rightarrow> int \<Rightarrow> (nat, 's) M" where
  "new_model tb cw =
     bindM (lift_call (LEAR tb cw)) (\<lambda>m.
     (\<lambda>w. (Inr (length (models w)), w\<lparr>models := models w @ [m]\<rparr>)))"

definition handle_error :: "exn \<Rightarrow> (unit, 's) M" where
  "handle_error e =
     log_function_info ''handle_error''
       (bindM (print (ErrorOccurred e)) (\<lambda>_.
        bindM (logging_error (ErrorOccurred e)) (\<lambda>_.
        logging_error (Traceback e))))"

text \<open>The body of the \<^verbatim>\<open>try\<close> statement, lines 113 to 134.\<close>

definition main_try :: "'s toolbox \<Rightarrow> int + args \<Rightarrow> (unit, 's) M" where
  "main_try tb cl =
     bindM setup_logging (\<lambda>_.
     bindM log_system_info (\<lambda>_.
     bindM (parse_arguments cl) (\<lambda>a.
     bindM (logging_info (StartingScript (dataset a))) (\<lambda>_.
     bindM (logging_info (TestYears (years_test a))) (\<lambda>_.
     bindM (logging_info (CalibrationWindow (calibration_window a))) (\<lambda>_.
     bindM (load_data tb a) (\<lambda>(df_train, df_test).
     bindM (create_forecast_file_path a) (\<lambda>forecast_file_path.
     bindM (new_forecast df_test) (\<lambda>forecast.
     bindM (new_real_values df_test forecast) (\<lambda>real_values.
     bindM (get_mat forecast) (\<lambda>F.
     bindM (new_model tb (calibration_window a)) (\<lambda>model.
     bindM (for_dates tb a df_train df_test forecast real_values model (index F)) (\<lambda>_.
     logging_info Completed)))))))))))))"

definition main :: "'s toolbox \<Rightarrow> int + args \<Rightarrow> (unit, 's) M" where
  "main tb cl = log_function_info ''main'' (try_except (main_try tb cl) handle_error)"

section \<open>The states process\_date runs through\<close>

text \<open>The window of lines 96 and 97, the model call made on it, the two arrays handed
  to a metric function, and the state after each stage of \<open>process_date\<close>.\<close>

definition available_window :: "frame \<Rightarrow> frame \<Rightarrow> int \<Rightarrow> frame" where
  "available_window train test date =
     mask_price date (date + 23) (train @ loc_upto_frame test (date + 23))"

definition the_call :: "'s toolbox \<Rightarrow> args \<Rightarrow> nat \<Rightarrow> nat \<Rightarrow> nat \<Rightarrow> int \<Rightarrow> 's world \<Rightarrow> (string + cell list) \<times> 's" where
  "the_call tb a tr te mo d w =
     recalibrate_and_forecast_next_day tb (models w ! mo)
       (available_window (frames w ! tr) (frames w ! te) d) d (calibration_window a)"

definition forecast_prefix :: "matrix \<Rightarrow> int \<Rightarrow> ndarray" where
  "forecast_prefix F d = squeeze (length (columns F)) (rows (loc_upto_matrix F d))"

definition real_prefix :: "matrix \<Rightarrow> int \<Rightarrow> ndarray" where
  "real_prefix R d = Arr2 (rows (loc_upto_matrix R d))"

definition w_started :: "int \<Rightarrow> 's world \<Rightarrow> 's world" where
  "w_started d w = w\<lparr>logging := logging w @ [Info (FuncStart ''process_date''), Info (ProcessingDate d)]\<rparr>"

definition w_window :: "nat \<Rightarrow> nat \<Rightarrow> int \<Rightarrow> 's world \<Rightarrow> 's world" where
  "w_window tr te d w =
     (w_started d w)\<lparr>frames := frames w @ [available_window (frames w ! tr) (frames w ! te) d]\<rparr>"

definition w_called :: "'s toolbox \<Rightarrow> args \<Rightarrow> nat \<Rightarrow> nat \<Rightarrow> nat \<Rightarrow> int \<Rightarrow> 's world \<Rightarrow> 's world" where
  "w_called tb a tr te mo d w =
     (w_window tr te d w)\<lparr>models := (models w)[mo := snd (the_call tb a tr te mo d w)],
        model_calls := model_calls w @
          [\<lparr>call_df = available_window (frames w ! tr) (frames w ! te) d,
            call_next_day_date = d, call_calibration_window = calibration_window a,
            call_result = fst (the_call tb a tr te mo d w)\<rparr>]\<rparr>"

definition w_written :: "'s toolbox \<Rightarrow> args \<Rightarrow> nat \<Rightarrow> nat \<Rightarrow> nat \<Rightarrow> nat \<Rightarrow> int \<Rightarrow> matrix \<Rightarrow> 's world \<Rightarrow> 's world" where
  "w_written tb a tr te fc mo d F' w = (w_called tb a tr te mo d w)\<lparr>mats := (mats w)[fc := F']\<rparr>"

definition w_reported :: "'s toolbox \<Rightarrow> args \<Rightarrow> nat \<Rightarrow> nat \<Rightarrow> nat \<Rightarrow> nat \<Rightarrow> int \<Rightarrow> matrix \<Rightarrow> real \<Rightarrow> real \<Rightarrow> 's world \<Rightarrow> 's world" where
  "w_reported tb a tr te fc mo d F' s mae w =
     (w_written tb a tr te fc mo d F' w)\<lparr>stdout := stdout w @ [Progress d (s * 100) mae],
        logging := logging w @ [Info (FuncStart ''process_date''), Info (ProcessingDate d),
                                Info (Progress d (s * 100) mae), Info (FuncEnd ''process_date'')]\<rparr>"


section \<open>A small run\<close>

text \<open>One day of history and two test days, a model that always answers 12 for each
  of the 24 hours, and metric functions with fixed answers. They serve as concrete
  inputs below.\<close>

definition day_rows :: "int \<Rightarrow> real \<Rightarrow> frame" where
  "day_rows d p = map (\<lambda>h. \<lparr>ts = d + int h, price = Some p, exog = [Some (real h)]\<rparr>) [0..<24]"

definition ex_train :: frame where
  "ex_train = day_rows 0 10"

definition ex_test :: frame where
  "ex_test = day_rows 24 10 @ day_rows 48 20"

definition ex_toolbox :: "unit toolbox" where
  "ex_toolbox = \<lparr>read_data = (\<lambda>_ _ _ _ _. Inr (ex_train, ex_test)),
                  LEAR = (\<lambda>_. Inr ()),
                  recalibrate_and_forecast_next_day = (\<lambda>s _ _ _. (Inr (replicate 24 (Some 12)), s)),
                  MAE = (\<lambda>_ _. Inr 2),
                  sMAPE = (\<lambda>_ _. Inr (1 / 4))\<rparr>"

definition ex_args :: args where
  "ex_args = \<lparr>dataset = ''PJM'', years_test = 2, calibration_window = 1456,
               begin_test_date = None, end_test_date = None\<rparr>"

definition ex_forecast :: matrix where
  "ex_forecast = \<lparr>index = [24, 48], columns = h_columns,
                   rows = replicate 2 (replicate 24 None)\<rparr>"

definition ex_real_values :: matrix where
  "ex_real_values = \<lparr>index = [24, 48], columns = h_columns,
                      rows = [replicate 24 (Some 10), replicate 24 (Some 20)]\<rparr>"

text \<open>The state in which \<open>main\<close> enters its loop on these inputs, logging aside.\<close>

definition ex_world :: "unit world" where
  "ex_world = \<lparr>frames = [ex_train, ex_test], mats = [ex_forecast, ex_real_values],
                models = [()], model_calls = [], stdout = [], logging = [], files = []\<rparr>"

section \<open>The state in which the loop starts\<close>

text \<open>The two matrices that \<open>main\<close> builds from the test data, what it has logged when
  the loop starts, and the state at that point.\<close>

definition forecast0 :: "frame \<Rightarrow> matrix" where
  "forecast0 test = \<lparr>index = every24 (map ts test), columns = h_columns,
     rows = replicate (length (every24 (map ts test))) (replicate 24 None)\<rparr>"

definition real_values0 :: "frame \<Rightarrow> matrix" where
  "real_values0 test = \<lparr>index = every24 (map ts test), columns = h_columns,
     rows = reshape24 (map price test)\<rparr>"

definition prologue :: "args \<Rightarrow> log_call list" where
  "prologue a = BasicConfig ''forecasting.log'' #
     map (Info \<circ> SystemInfo)
       [''Python Version'', ''Platform'', ''Operating System'', ''Script Path'',
        ''Execution Script Name'', ''Library Script Name'', ''Library Script Path'',
        ''Library Script Name'', ''Library Script Path'', ''Library Script Name'',
        ''Library Script Path''] @
     [Info (StartingScript (dataset a)), Info (TestYears (years_test a)),
      Info (CalibrationWindow (calibration_window a))]"

definition path_lines :: "log_call list" where
  "path_lines = [Info (FuncStart ''create_forecast_file_path''),
     Info (FuncStart ''create_forecast_file_name''), Info (FuncEnd ''create_forecast_file_name''),
     Info (FuncEnd ''create_forecast_file_path'')]"

definition w_ready :: "args \<Rightarrow> frame \<Rightarrow> frame \<Rightarrow> 's \<Rightarrow> 's world \<Rightarrow> 's world" where
  "w_ready a train test m w =
     w\<lparr>frames := frames w @ [train, test],
       logging := logging w @ prologue a @
         [Info (FuncStart ''load_data''), Info (FuncEnd ''load_data'')] @ path_lines,
       mats := mats w @ [forecast0 test, real_values0 test],
       models := models w @ [m]\<rparr>"

section \<open>What every statement of the script leaves alone\<close>

text \<open>\<open>preserves R m\<close>: whatever \<open>m\<close> returns or raises, the states before and after it
  are related by \<open>R\<close>. The relation \<open>run_rel cw\<close> says that no data file was written
  and that the model calls made in between all carry the calibration window \<open>cw\<close>.\<close>

definition preserves :: "('s world \<Rightarrow> 's world \<Rightarrow> bool) \<Rightarrow> ('a, 's) M \<Rightarrow> bool" where
  "preserves R m = (\<forall>w r w'. m w = (r, w') \<longrightarrow> R w w')"

definition run_rel :: "int \<Rightarrow> 's world \<Rightarrow> 's world \<Rightarrow> bool" where
  "run_rel cw w w' =
     (files w' = files w \<and>
      (\<exists>cs. model_calls w' = model_calls w @ cs \<and>
            (\<forall>c\<in>set cs. call_calibration_window c = cw)))"


text \<open>\<open>catchable m\<close>: whatever \<open>m\<close> raises is of class \<^verbatim>\<open>Exception\<close>.\<close>

definition catchable :: "('a, 's) M \<Rightarrow> bool" where
  "catchable m = (\<forall>w e w'. m w = (Inl e, w') \<longrightarrow> is_Exception e)"

section \<open>Variants of the small run\<close>

definition ex_args_cw0 :: args where
  "ex_args_cw0 = ex_args\<lparr>calibration_window := 0\<rparr>"


definition ex_toolbox_short :: "unit toolbox" where
  "ex_toolbox_short = ex_toolbox\<lparr>recalibrate_and_forecast_next_day :=
      (\<lambda>s _ d _. (Inr (replicate (if d = 24 then 24 else 23) (Some 12)), s))\<rparr>"

definition ex_toolbox_ragged :: "unit toolbox" where
  "ex_toolbox_ragged = ex_toolbox\<lparr>read_data := (\<lambda>_ _ _ _ _. Inr (ex_train, butlast ex_test))\<rparr>"

text \<open>The forecast matrix after the first and after the second day of the small run,
  and the states of that run: when the loop starts, after the first day and after the
  second; then the states of the run whose model answers 23 values on the second day.\<close>

definition ex_forecast1 :: matrix where
  "ex_forecast1 = ex_forecast\<lparr>rows := [replicate 24 (Some 12), replicate 24 None]\<rparr>"

definition ex_forecast2 :: matrix where
  "ex_forecast2 = ex_forecast\<lparr>rows := [replicate 24 (Some 12), replicate 24 (Some 12)]\<rparr>"

definition ex_w0 :: "args \<Rightarrow> unit world" where
  "ex_w0 a = w_ready a ex_train ex_test () (w_init\<lparr>logging := [Info (FuncStart ''main'')]\<rparr>)"

definition ex_w1 :: "args \<Rightarrow> unit world" where
  "ex_w1 a = w_reported ex_toolbox a 0 (Suc 0) 0 0 24 ex_forecast1 (1 / 4) 2 (ex_w0 a)"

definition ex_w2 :: "args \<Rightarrow> unit world" where
  "ex_w2 a = w_reported ex_toolbox a 0 (Suc 0) 0 0 48 ex_forecast2 (1 / 4) 2 (ex_w1 a)"

definition ex_v1 :: "args \<Rightarrow> unit world" where
  "ex_v1 a = w_reported ex_toolbox_short a 0 (Suc 0) 0 0 24 ex_forecast1 (1 / 4) 2 (ex_w0 a)"

definition ex_v2 :: "args \<Rightarrow> unit world" where
  "ex_v2 a = w_called ex_toolbox_short a 0 (Suc 0) 0 48 (ex_v1 a)"

section \<open>What a row assignment stores\<close>

text \<open>The row that \<open>loc_set_row\<close> stores for an accepted value: the value itself, or its
  single entry repeated over the columns.\<close>

definition stored_row :: "nat \<Rightarrow> cell list \<Rightarrow> cell list" where
  "stored_row n Yp = (if length Yp = n then Yp else replicate n (hd Yp))"

section \<open>One stage at a time\<close>

lemmas M_defs = bindM_def returnM_def raiseM_def lift_call_def logging_info_def logging_error_def
  print_def get_frame_def new_frame_def set_frame_def get_mat_def new_mat_def set_mat_def
  log_function_info_def

lemmas pd_defs = process_date_def concat_available_def mask_next_day_def call_model_def
  write_row_def prefix_metric_def

lemmas w_defs = w_started_def w_window_def w_called_def w_written_def w_reported_def the_call_def
  available_window_def forecast_prefix_def real_prefix_def


lemma concat_available_eq:
  "tr < length (frames w) \<Longrightarrow> te < length (frames w) \<Longrightarrow>
   concat_available tr te d w =
     (Inr (length (frames w)), w\<lparr>frames := frames w @ [frames w ! tr @ loc_upto_frame (frames w ! te) (d + 23)]\<rparr>)"
  by (simp add: concat_available_def bindM_def get_frame_def new_frame_def)

lemma concat_available_bad:
  "\<not> (tr < length (frames w) \<and> te < length (frames w)) \<Longrightarrow>
   concat_available tr te d w = (Inl NoSuchObject, w)"
  by (auto simp add: concat_available_def bindM_def get_frame_def new_frame_def)

lemma mask_next_day_eq:
  "da < length (frames w) \<Longrightarrow>
   mask_next_day da d w = (Inr (), w\<lparr>frames := (frames w)[da := mask_price d (d + 23) (frames w ! da)]\<rparr>)"
  by (simp add: mask_next_day_def bindM_def get_frame_def set_frame_def)

lemma pd_no_frames:
  assumes "\<not> (tr < length (frames w) \<and> te < length (frames w))"
  shows "process_date tb a tr te fc rv mo d w = (Inl NoSuchObject, w_started d w)"
  using assms by (simp add: process_date_def log_function_info_def bindM_def logging_info_def concat_available_bad w_started_def)

lemma call_model_bad:
  "\<not> (mo < length (models w) \<and> df < length (frames w)) \<Longrightarrow>
   call_model tb mo df d cw w = (Inl NoSuchObject, w)"
  by (auto simp add: call_model_def)

lemma call_model_eq:
  assumes "mo < length (models w)" "df < length (frames w)"
  shows "call_model tb mo df d cw w =
     (case fst (recalibrate_and_forecast_next_day tb (models w ! mo) (frames w ! df) d cw) of
        Inl e \<Rightarrow> Inl (Raised e) | Inr Yp \<Rightarrow> Inr Yp,
      w\<lparr>models := (models w)[mo := snd (recalibrate_and_forecast_next_day tb (models w ! mo) (frames w ! df) d cw)],
        model_calls := model_calls w @
          [\<lparr>call_df = frames w ! df, call_next_day_date = d, call_calibration_window = cw,
            call_result = fst (recalibrate_and_forecast_next_day tb (models w ! mo) (frames w ! df) d cw)\<rparr>]\<rparr>)"
  using assms by (simp add: call_model_def Let_def split_beta split: sum.splits)

lemma write_row_bad:
  "\<not> fc < length (mats w) \<Longrightarrow> write_row fc d Yp w = (Inl NoSuchObject, w)"
  by (simp add: write_row_def bindM_def get_mat_def)

lemma write_row_err:
  "fc < length (mats w) \<Longrightarrow> loc_set_row (mats w ! fc) d Yp = Inl e \<Longrightarrow>
   write_row fc d Yp w = (Inl e, w)"
  by (simp add: write_row_def bindM_def get_mat_def raiseM_def)

lemma write_row_eq:
  "fc < length (mats w) \<Longrightarrow> loc_set_row (mats w ! fc) d Yp = Inr F' \<Longrightarrow>
   write_row fc d Yp w = (Inr (), w\<lparr>mats := (mats w)[fc := F']\<rparr>)"
  by (simp add: write_row_def bindM_def get_mat_def set_mat_def)

lemma prefix_metric_bad:
  "\<not> (fc < length (mats w) \<and> rv < length (mats w)) \<Longrightarrow>
   prefix_metric f fc rv d w = (Inl NoSuchObject, w)"
  by (auto simp add: prefix_metric_def bindM_def get_mat_def)

lemma prefix_metric_eq:
  "fc < length (mats w) \<Longrightarrow> rv < length (mats w) \<Longrightarrow>
   prefix_metric f fc rv d w =
     (case f (forecast_prefix (mats w ! fc) d) (real_prefix (mats w ! rv) d) of
        Inl e \<Rightarrow> Inl (Raised e) | Inr v \<Rightarrow> Inr v, w)"
  by (simp add: prefix_metric_def bindM_def get_mat_def lift_call_def raiseM_def returnM_def
      forecast_prefix_def real_prefix_def split: sum.splits)

lemmas seq_defs = process_date_def log_function_info_def bindM_def logging_info_def print_def returnM_def

lemma pd_no_model:
  assumes "tr < length (frames w)" "te < length (frames w)" "\<not> mo < length (models w)"
  shows "process_date tb a tr te fc rv mo d w = (Inl NoSuchObject, w_window tr te d w)"
  using assms
  by (simp add: seq_defs concat_available_eq mask_next_day_eq call_model_bad
      w_started_def w_window_def available_window_def)

lemma pd_model_raised:
  assumes "tr < length (frames w)" "te < length (frames w)" "mo < length (models w)"
    and "fst (the_call tb a tr te mo d w) = Inl e"
  shows "process_date tb a tr te fc rv mo d w = (Inl (Raised e), w_called tb a tr te mo d w)"
  using assms
  by (simp add: seq_defs concat_available_eq mask_next_day_eq call_model_eq
      w_started_def w_window_def w_called_def the_call_def available_window_def)

lemmas run_eqs = concat_available_eq mask_next_day_eq call_model_eq
  w_started_def w_window_def w_called_def w_written_def the_call_def available_window_def

lemma pd_no_forecast:
  assumes "tr < length (frames w)" "te < length (frames w)" "mo < length (models w)"
    and "fst (the_call tb a tr te mo d w) = Inr Yp" and "\<not> fc < length (mats w)"
  shows "process_date tb a tr te fc rv mo d w = (Inl NoSuchObject, w_called tb a tr te mo d w)"
  using assms by (simp add: seq_defs run_eqs write_row_bad)

lemma pd_write_failed:
  assumes "tr < length (frames w)" "te < length (frames w)" "mo < length (models w)"
    and "fst (the_call tb a tr te mo d w) = Inr Yp" and "fc < length (mats w)"
    and "loc_set_row (mats w ! fc) d Yp = Inl e"
  shows "process_date tb a tr te fc rv mo d w = (Inl e, w_called tb a tr te mo d w)"
  using assms by (simp add: seq_defs run_eqs write_row_err)

lemma pd_no_real_values:
  assumes "tr < length (frames w)" "te < length (frames w)" "mo < length (models w)"
    and "fst (the_call tb a tr te mo d w) = Inr Yp" and "fc < length (mats w)"
    and "loc_set_row (mats w ! fc) d Yp = Inr F'" and "\<not> rv < length (mats w)"
  shows "process_date tb a tr te fc rv mo d w = (Inl NoSuchObject, w_written tb a tr te fc mo d F' w)"
  using assms by (simp add: seq_defs run_eqs write_row_eq prefix_metric_bad)

lemma pd_mae_raised:
  assumes "tr < length (frames w)" "te < length (frames w)" "mo < length (models w)"
    and "fst (the_call tb a tr te mo d w) = Inr Yp" and "fc < length (mats w)"
    and "loc_set_row (mats w ! fc) d Yp = Inr F'" and "rv < length (mats w)"
    and "MAE tb (forecast_prefix F' d) (real_prefix ((mats w)[fc := F'] ! rv) d) = Inl e"
  shows "process_date tb a tr te fc rv mo d w = (Inl (Raised e), w_written tb a tr te fc mo d F' w)"
  using assms by (simp add: seq_defs run_eqs write_row_eq prefix_metric_eq)

lemma pd_smape_raised:
  assumes "tr < length (frames w)" "te < length (frames w)" "mo < length (models w)"
    and "fst (the_call tb a tr te mo d w) = Inr Yp" and "fc < length (mats w)"
    and "loc_set_row (mats w ! fc) d Yp = Inr F'" and "rv < length (mats w)"
    and "MAE tb (forecast_prefix F' d) (real_prefix ((mats w)[fc := F'] ! rv) d) = Inr mae"
    and "sMAPE tb (forecast_prefix F' d) (real_prefix ((mats w)[fc := F'] ! rv) d) = Inl e"
  shows "process_date tb a tr te fc rv mo d w = (Inl (Raised e), w_written tb a tr te fc mo d F' w)"
  using assms by (simp add: seq_defs run_eqs write_row_eq prefix_metric_eq)

lemma pd_reported:
  assumes "tr < length (frames w)" "te < length (frames w)" "mo < length (models w)"
    and "fst (the_call tb a tr te mo d w) = Inr Yp" and "fc < length (mats w)"
    and "loc_set_row (mats w ! fc) d Yp = Inr F'" and "rv < length (mats w)"
    and "MAE tb (forecast_prefix F' d) (real_prefix ((mats w)[fc := F'] ! rv) d) = Inr mae"
    and "sMAPE tb (forecast_prefix F' d) (real_prefix ((mats w)[fc := F'] ! rv) d) = Inr s"
  shows "process_date tb a tr te fc rv mo d w = (Inr (), w_reported tb a tr te fc mo d F' s mae w)"
  using assms by (simp add: seq_defs run_eqs write_row_eq prefix_metric_eq w_reported_def)


section \<open>The outcomes of process\_date\<close>

lemma process_date_cases:
  assumes run: "process_date tb a tr te fc rv mo d w = (r, w')"
  obtains
    (no_frames) "\<not> (tr < length (frames w) \<and> te < length (frames w))"
      "r = Inl NoSuchObject" "w' = w_started d w"
  | (no_model) "tr < length (frames w)" "te < length (frames w)" "\<not> mo < length (models w)"
      "r = Inl NoSuchObject" "w' = w_window tr te d w"
  | (model_raised) e where "tr < length (frames w)" "te < length (frames w)"
      "mo < length (models w)" "fst (the_call tb a tr te mo d w) = Inl e"
      "r = Inl (Raised e)" "w' = w_called tb a tr te mo d w"
  | (no_forecast) Yp where "tr < length (frames w)" "te < length (frames w)"
      "mo < length (models w)" "fst (the_call tb a tr te mo d w) = Inr Yp"
      "\<not> fc < length (mats w)" "r = Inl NoSuchObject" "w' = w_called tb a tr te mo d w"
  | (write_failed) Yp e where "tr < length (frames w)" "te < length (frames w)"
      "mo < length (models w)" "fst (the_call tb a tr te mo d w) = Inr Yp"
      "fc < length (mats w)" "loc_set_row (mats w ! fc) d Yp = Inl e"
      "r = Inl e" "w' = w_called tb a tr te mo d w"
  | (metric_failed) Yp F' e where "tr < length (frames w)" "te < length (frames w)"
      "mo < length (models w)" "fst (the_call tb a tr te mo d w) = Inr Yp"
      "fc < length (mats w)" "loc_set_row (mats w ! fc) d Yp = Inr F'"
      "r = Inl e" "w' = w_written tb a tr te fc mo d F' w"
  | (reported) Yp F' mae s where "tr < length (frames w)" "te < length (frames w)"
      "mo < length (models w)" "fst (the_call tb a tr te mo d w) = Inr Yp"
      "fc < length (mats w)" "loc_set_row (mats w ! fc) d Yp = Inr F'" "rv < length (mats w)"
      "MAE tb (forecast_prefix F' d) (real_prefix ((mats w)[fc := F'] ! rv) d) = Inr mae"
      "sMAPE tb (forecast_prefix F' d) (real_prefix ((mats w)[fc := F'] ! rv) d) = Inr s"
      "r = Inr ()" "w' = w_reported tb a tr te fc mo d F' s mae w"
proof (cases "tr < length (frames w) \<and> te < length (frames w)")
  case False
  with run pd_no_frames [OF False] no_frames show ?thesis by simp
next
  case fr: True
  show ?thesis
  proof (cases "mo < length (models w)")
    case False
    with run fr pd_no_model [of tr w te mo] no_model show ?thesis by simp
  next
    case mo: True
    show ?thesis
    proof (cases "fst (the_call tb a tr te mo d w)")
      case (Inl e)
      with run fr mo pd_model_raised [of tr w te mo tb a d e] model_raised show ?thesis by simp
    next
      case yp: (Inr Yp)
      show ?thesis
      proof (cases "fc < length (mats w)")
        case False
        with run fr mo yp pd_no_forecast [of tr w te mo tb a d Yp fc] no_forecast
        show ?thesis by simp
      next
        case fc: True
        show ?thesis
        proof (cases "loc_set_row (mats w ! fc) d Yp")
          case (Inl e)
          with run fr mo yp fc pd_write_failed [of tr w te mo tb a d Yp fc e] write_failed
          show ?thesis by simp
        next
          case wr: (Inr F')
          show ?thesis
          proof (cases "rv < length (mats w)")
            case False
            with run fr mo yp fc wr pd_no_real_values [of tr w te mo tb a d Yp fc F' rv]
              metric_failed [of Yp F' NoSuchObject]
            show ?thesis by simp
          next
            case rv: True
            show ?thesis
            proof (cases "MAE tb (forecast_prefix F' d) (real_prefix ((mats w)[fc := F'] ! rv) d)")
              case (Inl e)
              with run fr mo yp fc wr rv pd_mae_raised [of tr w te mo tb a d Yp fc F' rv e]
                metric_failed [of Yp F' "Raised e"]
              show ?thesis by simp
            next
              case mae: (Inr mae)
              show ?thesis
              proof (cases "sMAPE tb (forecast_prefix F' d) (real_prefix ((mats w)[fc := F'] ! rv) d)")
                case (Inl e)
                with run fr mo yp fc wr rv mae
                  pd_smape_raised [of tr w te mo tb a d Yp fc F' rv mae e]
                  metric_failed [of Yp F' "Raised e"]
                show ?thesis by simp
              next
                case (Inr s)
                with run fr mo yp fc wr rv mae
                  pd_reported [of tr w te mo tb a d Yp fc F' rv mae s]
                  reported [of Yp F' mae s]
                show ?thesis by simp
              qed
            qed
          qed
        qed
      qed
    qed
  qed
qed

lemmas w_simps = w_started_def w_window_def w_called_def w_written_def w_reported_def

lemma process_date_frames:
  assumes "process_date tb a tr te fc rv mo d w = (r, w')"
  shows "take (length (frames w)) (frames w') = frames w"
  using assms by (cases rule: process_date_cases) (simp_all add: w_simps)

lemma process_date_files:
  assumes "process_date tb a tr te fc rv mo d w = (r, w')"
  shows "files w' = files w"
  using assms by (cases rule: process_date_cases) (simp_all add: w_simps)

lemma process_date_models_length:
  assumes "process_date tb a tr te fc rv mo d w = (r, w')"
  shows "length (models w') = length (models w)"
  using assms by (cases rule: process_date_cases) (simp_all add: w_simps)

lemma process_date_mats:
  assumes "process_date tb a tr te fc rv mo d w = (r, w')"
  shows "mats w' = mats w \<or>
    (\<exists>Yp F'. fc < length (mats w) \<and> fst (the_call tb a tr te mo d w) = Inr Yp \<and>
       loc_set_row (mats w ! fc) d Yp = Inr F' \<and> mats w' = (mats w)[fc := F'])"
  using assms by (cases rule: process_date_cases) (simp_all add: w_simps)

lemma process_date_calls:
  assumes "process_date tb a tr te fc rv mo d w = (r, w')"
  shows "model_calls w' = model_calls w \<or>
    (tr < length (frames w) \<and> te < length (frames w) \<and>
     model_calls w' = model_calls w @
       [\<lparr>call_df = available_window (frames w ! tr) (frames w ! te) d,
         call_next_day_date = d, call_calibration_window = calibration_window a,
         call_result = fst (the_call tb a tr te mo d w)\<rparr>])"
  using assms by (cases rule: process_date_cases) (simp_all add: w_simps)

lemma frames_nth_kept:
  assumes "take (length xs) ys = xs" "i < length xs"
  shows "ys ! i = xs ! i"
  by (metis assms nth_take)


section \<open>The input series are left alone\<close>

text \<open>
  C10. Processing a test day leaves both input series as they were: the frame that is
  masked is the new one built by the concatenation, so the frames \<open>df_train\<close> and
  \<open>df_test\<close> hold the same rows after \<open>process_date\<close> as before it, whatever its
  outcome.
\<close>

theorem process_date_keeps_inputs:
  assumes "df_train < length (frames w)" and "df_test < length (frames w)"
    and "process_date tb a df_train df_test forecast real_values model date w = (r, w')"
  shows "frames w' ! df_train = frames w ! df_train \<and> frames w' ! df_test = frames w ! df_test"
  using process_date_frames [OF assms(3)] assms(1,2) by (simp add: frames_nth_kept)

theorem process_date_keeps_inputs_witness:
  "frames (snd (process_date ex_toolbox ex_args 0 1 0 1 0 24 ex_world)) ! 0 = ex_train \<and>
   frames (snd (process_date ex_toolbox ex_args 0 1 0 1 0 24 ex_world)) ! 1 = ex_test"
  using process_date_keeps_inputs [of 0 ex_world 1 ex_toolbox ex_args 0 1 0 24
      "fst (process_date ex_toolbox ex_args 0 1 0 1 0 24 ex_world)"
      "snd (process_date ex_toolbox ex_args 0 1 0 1 0 24 ex_world)"]
  by (simp add: ex_world_def)

section \<open>What the mask hides\<close>

lemma available_window_rows:
  "available_window train test d =
     map (\<lambda>x. if d \<le> ts x \<and> ts x \<le> d + 23 then x\<lparr>price := None\<rparr> else x)
       (train @ filter (\<lambda>x. ts x \<le> d + 23) test)"
  by (simp add: available_window_def mask_price_def loc_upto_frame_def)

lemma available_window_columns:
  "map ts (available_window train test d) = map ts (train @ filter (\<lambda>x. ts x \<le> d + 23) test)"
  "map exog (available_window train test d) =
     map exog (train @ filter (\<lambda>x. ts x \<le> d + 23) test)"
  "map price (available_window train test d) =
     map (\<lambda>x. if d \<le> ts x \<and> ts x \<le> d + 23 then None else price x)
       (train @ filter (\<lambda>x. ts x \<le> d + 23) test)"
  by (auto simp: available_window_def mask_price_def loc_upto_frame_def)

lemma process_date_call:
  assumes "process_date tb a tr te fc rv mo d w = (r, w')"
    and "tr < length (frames w)" and "te < length (frames w)" and "mo < length (models w)"
  shows "model_calls w' = model_calls w @
       [\<lparr>call_df = available_window (frames w ! tr) (frames w ! te) d,
         call_next_day_date = d, call_calibration_window = calibration_window a,
         call_result = fst (the_call tb a tr te mo d w)\<rparr>]"
  using assms by (cases rule: process_date_cases) (simp_all add: w_simps)

text \<open>
  C7. When \<open>process_date\<close> runs for a day \<open>d\<close> on existing frames and an existing model,
  it calls the model once, for \<open>d\<close>, and the frame it hands over has, row by row, the
  timestamps and the exogenous columns of the training data followed by the test rows
  up to the last hour of \<open>d\<close>, the 24 hours of \<open>d\<close> included; its prices are those rows'
  prices, except in the 24 hours of \<open>d\<close>, where the price is NaN.
\<close>

theorem model_is_handed_covariates_without_price:
  assumes "process_date tb a tr te fc rv mo d w = (r, w')"
    and "tr < length (frames w)" and "te < length (frames w)" and "mo < length (models w)"
  shows "\<exists>c. model_calls w' = model_calls w @ [c] \<and> call_next_day_date c = d \<and>
     map ts (call_df c) =
       map ts (frames w ! tr @ filter (\<lambda>x. ts x \<le> d + 23) (frames w ! te)) \<and>
     map exog (call_df c) =
       map exog (frames w ! tr @ filter (\<lambda>x. ts x \<le> d + 23) (frames w ! te)) \<and>
     map price (call_df c) =
       map (\<lambda>x. if d \<le> ts x \<and> ts x \<le> d + 23 then None else price x)
         (frames w ! tr @ filter (\<lambda>x. ts x \<le> d + 23) (frames w ! te))"
proof -
  let ?c = "\<lparr>call_df = available_window (frames w ! tr) (frames w ! te) d,
         call_next_day_date = d, call_calibration_window = calibration_window a,
         call_result = fst (the_call tb a tr te mo d w)\<rparr>"
  have "model_calls w' = model_calls w @ [?c]"
    by (rule process_date_call [OF assms])
  moreover have "call_next_day_date ?c = d"
    by simp
  moreover have "map ts (call_df ?c) =
       map ts (frames w ! tr @ filter (\<lambda>x. ts x \<le> d + 23) (frames w ! te))"
    and "map exog (call_df ?c) =
       map exog (frames w ! tr @ filter (\<lambda>x. ts x \<le> d + 23) (frames w ! te))"
    and "map price (call_df ?c) =
       map (\<lambda>x. if d \<le> ts x \<and> ts x \<le> d + 23 then None else price x)
         (frames w ! tr @ filter (\<lambda>x. ts x \<le> d + 23) (frames w ! te))"
    by (simp_all only: model_call.select_convs available_window_columns)
  ultimately show ?thesis
    by blast
qed

lemma ex_window_values:
  "map exog (ex_train @ filter (\<lambda>x. ts x \<le> 24 + 23) ex_test) ! 30 = [Some 6]"
  "map (\<lambda>x. if 24 \<le> ts x \<and> ts x \<le> 24 + 23 then None else price x)
     (ex_train @ filter (\<lambda>x. ts x \<le> 24 + 23) ex_test) ! 30 = None"
  "map (\<lambda>x. if 24 \<le> ts x \<and> ts x \<le> 24 + 23 then None else price x)
     (ex_train @ filter (\<lambda>x. ts x \<le> 24 + 23) ex_test) ! 0 = Some 10"
  by code_simp+

section \<open>The stages of main\<close>

lemma load_data_eq:
  assumes "read_data tb (dataset a) (years_test a) ''./datasets'' (begin_test_date a) (end_test_date a) = Inr (train, test)"
  shows "load_data tb a w =
    (Inr (length (frames w), Suc (length (frames w))),
     w\<lparr>frames := frames w @ [train, test],
       logging := logging w @ [Info (FuncStart ''load_data''), Info (FuncEnd ''load_data'')]\<rparr>)"
  using assms by (simp add: load_data_def M_defs)


lemma create_forecast_file_path_eq:
  "create_forecast_file_path a w =
    (Inr (''./experimental_files/'' @ ''fc_nl_dat'' @ dataset a @ ''_YT'' @ str_int (years_test a)
                 @ ''_CW'' @ str_int (calibration_window a) @ ''.csv''),
     w\<lparr>logging := logging w @ [Info (FuncStart ''create_forecast_file_path''),
        Info (FuncStart ''create_forecast_file_name''), Info (FuncEnd ''create_forecast_file_name''),
        Info (FuncEnd ''create_forecast_file_path'')]\<rparr>)"
  by (simp add: create_forecast_file_path_def create_forecast_file_name_def M_defs)

lemma log_system_info_eq:
  "log_system_info w = (Inr (), w\<lparr>logging := logging w @ map (Info \<circ> SystemInfo)
     [''Python Version'', ''Platform'', ''Operating System'', ''Script Path'',
      ''Execution Script Name'', ''Library Script Name'', ''Library Script Path'',
      ''Library Script Name'', ''Library Script Path'', ''Library Script Name'',
      ''Library Script Path'']\<rparr>)"
  by (simp add: log_system_info_def bindM_def logging_info_def)


lemma handle_error_eq:
  "handle_error e w =
     (Inr (), w\<lparr>stdout := stdout w @ [ErrorOccurred e],
        logging := logging w @ [Info (FuncStart ''handle_error''), Error (ErrorOccurred e),
                                Error (Traceback e), Info (FuncEnd ''handle_error'')]\<rparr>)"
  by (simp add: handle_error_def M_defs)

lemma setup_logging_eq:
  "setup_logging w = (Inr (), w\<lparr>logging := logging w @ [BasicConfig ''forecasting.log'']\<rparr>)"
  by (simp add: setup_logging_def)

lemma new_forecast_eq:
  "te < length (frames w) \<Longrightarrow>
   new_forecast te w = (Inr (length (mats w)), w\<lparr>mats := mats w @ [forecast0 (frames w ! te)]\<rparr>)"
  by (simp add: new_forecast_def M_defs forecast0_def)

lemma new_real_values_ragged:
  "te < length (frames w) \<Longrightarrow> length (frames w ! te) mod 24 \<noteq> 0 \<Longrightarrow>
   new_real_values te fc w = (Inl ValueError_reshape, w)"
  by (simp add: new_real_values_def M_defs)

lemma new_real_values_eq:
  "te < length (frames w) \<Longrightarrow> length (frames w ! te) mod 24 = 0 \<Longrightarrow> fc < length (mats w) \<Longrightarrow>
   mats w ! fc = forecast0 (frames w ! te) \<Longrightarrow>
   new_real_values te fc w =
     (Inr (length (mats w)), w\<lparr>mats := mats w @ [real_values0 (frames w ! te)]\<rparr>)"
  by (simp add: new_real_values_def M_defs real_values0_def forecast0_def)

lemma new_model_eq:
  "LEAR tb cw = Inr m \<Longrightarrow>
   new_model tb cw w = (Inr (length (models w)), w\<lparr>models := models w @ [m]\<rparr>)"
  by (simp add: new_model_def M_defs)

lemma new_model_raised:
  "LEAR tb cw = Inl e \<Longrightarrow> new_model tb cw w = (Inl (Raised e), w)"
  by (simp add: new_model_def M_defs)

lemmas main_stage_eqs = setup_logging_eq log_system_info_eq load_data_eq
  create_forecast_file_path_eq new_forecast_eq new_real_values_eq new_model_eq

lemma main_try_ragged:
  assumes "read_data tb (dataset a) (years_test a) ''./datasets'' (begin_test_date a)
             (end_test_date a) = Inr (train, test)"
    and "length test mod 24 \<noteq> 0"
  shows "main_try tb (Inr a) w =
     (Inl ValueError_reshape,
      w\<lparr>frames := frames w @ [train, test],
        logging := logging w @ prologue a @
          [Info (FuncStart ''load_data''), Info (FuncEnd ''load_data'')] @ path_lines,
        mats := mats w @ [forecast0 test]\<rparr>)"
  using assms
  by (simp add: main_try_def parse_arguments_def returnM_def bindM_def logging_info_def
      main_stage_eqs new_real_values_ragged nth_append prologue_def path_lines_def)

lemma main_try_ready:
  assumes "read_data tb (dataset a) (years_test a) ''./datasets'' (begin_test_date a)
             (end_test_date a) = Inr (train, test)"
    and "length test mod 24 = 0" and "LEAR tb (calibration_window a) = Inr m"
  shows "main_try tb (Inr a) w =
     bindM (for_dates tb a (length (frames w)) (Suc (length (frames w))) (length (mats w))
              (Suc (length (mats w))) (length (models w)) (every24 (map ts test)))
           (\<lambda>_. logging_info Completed) (w_ready a train test m w)"
  using assms
  by (simp add: main_try_def parse_arguments_def returnM_def bindM_def logging_info_def
      main_stage_eqs get_mat_def nth_append prologue_def path_lines_def w_ready_def forecast0_def)

lemma main_eq:
  "main tb cl w =
     (case main_try tb cl (w\<lparr>logging := logging w @ [Info (FuncStart ''main'')]\<rparr>) of
        (Inl e, w1) \<Rightarrow>
          if is_Exception e then
            (Inr (), w1\<lparr>stdout := stdout w1 @ [ErrorOccurred e],
               logging := logging w1 @ [Info (FuncStart ''handle_error''), Error (ErrorOccurred e),
                 Error (Traceback e), Info (FuncEnd ''handle_error''), Info (FuncEnd ''main'')]\<rparr>)
          else (Inl e, w1)
      | (Inr u, w1) \<Rightarrow> (Inr (), w1\<lparr>logging := logging w1 @ [Info (FuncEnd ''main'')]\<rparr>))"
  by (simp add: main_def log_function_info_def bindM_def logging_info_def returnM_def
      try_except_def handle_error_eq split: prod.splits sum.splits)

section \<open>No file is written, the calibration window is passed on\<close>

lemma run_rel_same: "files w' = files w \<Longrightarrow> model_calls w' = model_calls w \<Longrightarrow> run_rel cw w w'"
  by (simp add: run_rel_def)

lemma run_rel_trans: "run_rel cw w w1 \<Longrightarrow> run_rel cw w1 w2 \<Longrightarrow> run_rel cw w w2"
  by (auto simp: run_rel_def)

lemma preserves_bindM:
  assumes "preserves (run_rel cw) m" and "\<And>x. preserves (run_rel cw) (f x)"
  shows "preserves (run_rel cw) (bindM m f)"
  using assms unfolding preserves_def bindM_def
  by (auto split: prod.splits sum.splits) (blast intro: run_rel_trans)

lemma preserves_try_except:
  assumes "preserves (run_rel cw) m" and "\<And>e. preserves (run_rel cw) (h e)"
  shows "preserves (run_rel cw) (try_except m h)"
  using assms unfolding preserves_def try_except_def
  by (auto split: prod.splits sum.splits if_splits intro: run_rel_same) (blast intro: run_rel_trans)

lemma preserves_case_prod:
  assumes "\<And>x y. preserves R (f x y)"
  shows "preserves R (case p of (x, y) \<Rightarrow> f x y)"
  using assms by (cases p) simp

lemma preserves_if:
  assumes "preserves R m" "preserves R n"
  shows "preserves R (if b then m else n)"
  using assms by simp

lemma preserves_prims:
  "preserves (run_rel cw) (returnM x)"
  "preserves (run_rel cw) (raiseM e)"
  "preserves (run_rel cw) (lift_call c)"
  "preserves (run_rel cw) (logging_info m)"
  "preserves (run_rel cw) (logging_error m)"
  "preserves (run_rel cw) (print m)"
  "preserves (run_rel cw) (get_frame i)"
  "preserves (run_rel cw) (new_frame fr)"
  "preserves (run_rel cw) (set_frame i fr)"
  "preserves (run_rel cw) (get_mat i)"
  "preserves (run_rel cw) (new_mat mt)"
  "preserves (run_rel cw) (set_mat i mt)"
  "preserves (run_rel cw) setup_logging"
  by (auto simp: preserves_def M_defs setup_logging_def intro!: run_rel_same
      split: sum.splits if_splits)

lemma preserves_log_function_info:
  assumes "preserves (run_rel cw) m"
  shows "preserves (run_rel cw) (log_function_info n m)"
  unfolding log_function_info_def
  by (intro preserves_bindM preserves_prims assms)

lemma preserves_process_date:
  "preserves (run_rel (calibration_window a)) (process_date tb a tr te fc rv mo d)"
  unfolding preserves_def
proof (intro allI impI)
  fix w r w'
  assume run: "process_date tb a tr te fc rv mo d w = (r, w')"
  from process_date_calls [OF run] process_date_files [OF run]
  show "run_rel (calibration_window a) w w'"
    by (auto simp: run_rel_def)
qed

lemma preserves_for_dates:
  "preserves (run_rel (calibration_window a)) (for_dates tb a tr te fc rv mo ds)"
  by (induction ds) (auto intro!: preserves_bindM preserves_prims preserves_process_date)

lemma preserves_parse_arguments:
  assumes "\<And>a. cl = Inr a \<Longrightarrow> preserves (run_rel cw) (f a)"
  shows "preserves (run_rel cw) (bindM (parse_arguments cl) f)"
proof (cases cl)
  case (Inl status)
  then show ?thesis
    by (simp add: preserves_def bindM_def parse_arguments_def raiseM_def run_rel_same)
next
  case (Inr a)
  with assms [OF Inr] show ?thesis
    by (simp add: preserves_def bindM_def parse_arguments_def returnM_def)
qed

lemma preserves_main_try:
  "preserves (run_rel (calibration_window a)) (main_try tb (Inr a))"
  unfolding main_try_def
  apply (rule preserves_bindM, rule preserves_prims)
  apply (rule preserves_bindM)
   apply (unfold log_system_info_def, intro preserves_bindM preserves_prims) [1]
  apply (rule preserves_parse_arguments)
  apply (unfold load_data_def create_forecast_file_path_def
    create_forecast_file_name_def new_forecast_def new_real_values_def new_model_def)
  apply (intro preserves_bindM preserves_prims preserves_case_prod preserves_if
      preserves_log_function_info)
   apply (simp_all add: preserves_for_dates)
  apply (simp add: preserves_def run_rel_same)
  done

lemma preserves_main:
  "preserves (run_rel (calibration_window a)) (main tb (Inr a))"
  unfolding main_def handle_error_def
  by (intro preserves_bindM preserves_prims preserves_try_except
      preserves_log_function_info preserves_main_try)

lemma main_run_rel: "run_rel (calibration_window a) w (snd (main tb (Inr a) w))"
  using preserves_main [of a tb] unfolding preserves_def by (metis prod.collapse)

lemma main_writes_no_file: "files (snd (main tb (Inr a) w)) = files w"
  using main_run_rel [of a w tb] by (simp add: run_rel_def)

lemma catchable_bindM:
  assumes "catchable m" and "\<And>x. catchable (f x)"
  shows "catchable (bindM m f)"
  using assms unfolding catchable_def bindM_def
  by (auto split: prod.splits sum.splits)

lemma catchable_case_prod:
  assumes "\<And>x y. catchable (f x y)"
  shows "catchable (case p of (x, y) \<Rightarrow> f x y)"
  using assms by (cases p) simp

lemma catchable_if:
  assumes "catchable m" "catchable n"
  shows "catchable (if b then m else n)"
  using assms by simp

lemma catchable_prims:
  "catchable (returnM x)"
  "is_Exception e \<Longrightarrow> catchable (raiseM e)"
  "catchable (lift_call c)"
  "catchable (logging_info m)"
  "catchable (logging_error m)"
  "catchable (print m)"
  "catchable (get_frame i)"
  "catchable (new_frame fr)"
  "catchable (set_frame i fr)"
  "catchable (get_mat i)"
  "catchable (new_mat mt)"
  "catchable (set_mat i mt)"
  "catchable setup_logging"
  by (auto simp: catchable_def M_defs setup_logging_def split: sum.splits if_splits)

lemma catchable_log_function_info:
  assumes "catchable m"
  shows "catchable (log_function_info n m)"
  unfolding log_function_info_def
  by (intro catchable_bindM catchable_prims assms)

lemma loc_set_row_raises:
  assumes "loc_set_row m d Yp = Inl e"
  shows "e = ValueError_setitem"
  using assms by (auto simp: loc_set_row_def Let_def split: if_splits)

lemma catchable_call_model: "catchable (call_model tb mo df d cw)"
  by (auto simp: catchable_def call_model_def Let_def split: if_splits prod.splits sum.splits)

lemma catchable_write_row: "catchable (write_row fc d Yp)"
  by (auto simp: catchable_def write_row_def bindM_def get_mat_def set_mat_def raiseM_def
      split: if_splits sum.splits dest: loc_set_row_raises)

lemma catchable_process_date: "catchable (process_date tb a tr te fc rv mo d)"
  unfolding process_date_def concat_available_def mask_next_day_def prefix_metric_def
  by (intro catchable_log_function_info catchable_bindM catchable_prims catchable_call_model
      catchable_write_row)

lemma catchable_for_dates: "catchable (for_dates tb a tr te fc rv mo ds)"
  by (induction ds) (auto intro!: catchable_bindM catchable_prims catchable_process_date)

lemma catchable_main_try: "catchable (main_try tb (Inr a))"
  unfolding main_try_def log_system_info_def load_data_def create_forecast_file_path_def
    create_forecast_file_name_def new_forecast_def new_real_values_def new_model_def
  apply (intro catchable_bindM catchable_prims catchable_case_prod catchable_if
      catchable_log_function_info catchable_for_dates)
  apply (auto simp: catchable_def parse_arguments_def returnM_def)
  done

lemma main_returns: "fst (main tb (Inr a) w) = Inr ()"
proof (cases "main_try tb (Inr a) (w\<lparr>logging := logging w @ [Info (FuncStart ''main'')]\<rparr>)")
  case (Pair r w1)
  show ?thesis
  proof (cases r)
    case (Inl e)
    with Pair catchable_main_try [of tb a] have "is_Exception e"
      unfolding catchable_def by blast
    with Pair Inl show ?thesis
      by (simp add: main_eq)
  next
    case (Inr u)
    with Pair show ?thesis
      by (simp add: main_eq)
  qed
qed


section \<open>The small run, step by step\<close>

lemma loc_set_row_fits:
  assumes "d \<in> set (index m)" and "length Yp = length (columns m)"
  shows "loc_set_row m d Yp =
     Inr (m\<lparr>rows := map2 (\<lambda>d' r. if d' = d then Yp else r) (index m) (rows m)\<rparr>)"
  using assms by (simp add: loc_set_row_def)

lemma length_h_columns: "length h_columns = 24"
  by (simp add: h_columns_def)

lemma length_ex_test: "length ex_test = 48"
  by (simp add: ex_test_def day_rows_def)

lemma every24_ex_test: "every24 (map ts ex_test) = [24, 48]"
  by code_simp

lemma forecast0_ex_test: "forecast0 ex_test = ex_forecast"
  by (simp add: forecast0_def ex_forecast_def every24_ex_test numeral_2_eq_2)

lemma ex_write1: "loc_set_row ex_forecast 24 (replicate 24 (Some 12)) = Inr ex_forecast1"
  by (simp add: loc_set_row_fits ex_forecast_def ex_forecast1_def length_h_columns numeral_2_eq_2)

lemma ex_write2: "loc_set_row ex_forecast1 48 (replicate 24 (Some 12)) = Inr ex_forecast2"
  by (simp add: loc_set_row_fits ex_forecast_def ex_forecast1_def ex_forecast2_def length_h_columns)

lemma ex_tb [simp]:
  "recalibrate_and_forecast_next_day ex_toolbox s df d cw = (Inr (replicate 24 (Some 12)), s)"
  "MAE ex_toolbox p q = Inr 2" "sMAPE ex_toolbox p q = Inr (1 / 4)"
  "LEAR ex_toolbox cw = Inr ()"
  "read_data ex_toolbox ds yt pth b e = Inr (ex_train, ex_test)"
  by (simp_all add: ex_toolbox_def)

lemma w_init_fields:
  "frames w_init = []" "mats w_init = []" "models w_init = []" "model_calls w_init = []"
  "stdout w_init = []" "logging w_init = []" "files w_init = []"
  by (simp_all add: w_init_def)

lemma ex_w0_fields:
  "frames (ex_w0 a) = [ex_train, ex_test]" "mats (ex_w0 a) = [ex_forecast, real_values0 ex_test]"
  "models (ex_w0 a) = [()]" "model_calls (ex_w0 a) = []" "stdout (ex_w0 a) = []" "files (ex_w0 a) = []"
  by (simp_all add: ex_w0_def w_ready_def w_init_fields forecast0_ex_test)

lemma ex_w1_fields:
  "frames (ex_w1 a) = [ex_train, ex_test, available_window ex_train ex_test 24]"
  "mats (ex_w1 a) = [ex_forecast1, real_values0 ex_test]"
  "models (ex_w1 a) = [()]" "stdout (ex_w1 a) = [Progress 24 25 2]"
  by (simp_all add: ex_w1_def w_simps ex_w0_fields the_call_def)

lemma ex_day1:
  "process_date ex_toolbox a 0 (Suc 0) 0 (Suc 0) 0 24 (ex_w0 a) = (Inr (), ex_w1 a)"
  unfolding ex_w1_def
  by (rule pd_reported [where Yp = "replicate 24 (Some 12)"])
     (simp_all add: ex_w0_fields the_call_def ex_write1)

lemma ex_day2:
  "process_date ex_toolbox a 0 (Suc 0) 0 (Suc 0) 0 48 (ex_w1 a) = (Inr (), ex_w2 a)"
  unfolding ex_w2_def
  by (rule pd_reported [where Yp = "replicate 24 (Some 12)"])
     (simp_all add: ex_w1_fields the_call_def ex_write2)

lemma ex_main_try:
  "main_try ex_toolbox (Inr a) (w_init\<lparr>logging := [Info (FuncStart ''main'')]\<rparr>) =
     (Inr (), (ex_w2 a)\<lparr>logging := logging (ex_w2 a) @ [Info Completed]\<rparr>)"
  by (simp add: main_try_ready [where train = ex_train and test = ex_test and m = "()"]
      length_ex_test every24_ex_test w_init_fields bindM_def returnM_def logging_info_def
      ex_day1 ex_day2 ex_w0_def [symmetric])

lemma ex_main:
  "main ex_toolbox (Inr a) w_init =
     (Inr (), (ex_w2 a)\<lparr>logging := logging (ex_w2 a) @ [Info Completed, Info (FuncEnd ''main'')]\<rparr>)"
  using ex_main_try [of a] by (simp add: main_eq w_init_fields)

lemma ex_w2_fields:
  "mats (ex_w2 a) = [ex_forecast2, real_values0 ex_test]"
  "stdout (ex_w2 a) = [Progress 24 25 2, Progress 48 25 2]"
  "files (ex_w2 a) = []"
  "map call_calibration_window (model_calls (ex_w2 a)) = [calibration_window a, calibration_window a]"
  "map call_next_day_date (model_calls (ex_w2 a)) = [24, 48]"
  by (simp_all add: ex_w2_def ex_w1_def w_simps ex_w0_fields the_call_def)


lemma ex_ragged:
  "read_data ex_toolbox_ragged (dataset ex_args) (years_test ex_args) ''./datasets''
     (begin_test_date ex_args) (end_test_date ex_args) = Inr (ex_train, butlast ex_test)"
  "length (butlast ex_test) mod 24 \<noteq> 0"
  by (simp_all add: ex_toolbox_ragged_def length_ex_test)

section \<open>The model call of the first day of the small run\<close>

theorem model_is_handed_covariates_without_price_witness:
  "map exog (call_df (model_calls (snd (process_date ex_toolbox ex_args 0 (Suc 0) 0 (Suc 0) 0 24
      (ex_w0 ex_args))) ! 0)) ! 30 = [Some 6] \<and>
   map price (call_df (model_calls (snd (process_date ex_toolbox ex_args 0 (Suc 0) 0 (Suc 0) 0 24
      (ex_w0 ex_args))) ! 0)) ! 30 = None \<and>
   map price (call_df (model_calls (snd (process_date ex_toolbox ex_args 0 (Suc 0) 0 (Suc 0) 0 24
      (ex_w0 ex_args))) ! 0)) ! 0 = Some 10"
proof -
  have hyps: "0 < length (frames (ex_w0 ex_args))" "Suc 0 < length (frames (ex_w0 ex_args))"
    "0 < length (models (ex_w0 ex_args))"
    by (simp_all add: ex_w0_fields)
  from model_is_handed_covariates_without_price [OF ex_day1 hyps]
  obtain c where calls: "model_calls (ex_w1 ex_args) = model_calls (ex_w0 ex_args) @ [c]"
    and ex: "map exog (call_df c) =
       map exog (frames (ex_w0 ex_args) ! 0 @
         filter (\<lambda>x. ts x \<le> 24 + 23) (frames (ex_w0 ex_args) ! Suc 0))"
    and pr: "map price (call_df c) =
       map (\<lambda>x. if 24 \<le> ts x \<and> ts x \<le> 24 + 23 then None else price x)
         (frames (ex_w0 ex_args) ! 0 @
           filter (\<lambda>x. ts x \<le> 24 + 23) (frames (ex_w0 ex_args) ! Suc 0))"
    by (elim exE conjE)
  from calls have c: "model_calls (ex_w1 ex_args) ! 0 = c"
    by (simp add: ex_w0_fields)
  have "map exog (call_df (model_calls (ex_w1 ex_args) ! 0)) ! 30 = [Some 6]"
    and "map price (call_df (model_calls (ex_w1 ex_args) ! 0)) ! 30 = None"
    and "map price (call_df (model_calls (ex_w1 ex_args) ! 0)) ! 0 = Some 10"
    unfolding c ex pr by (simp_all only: ex_w0_fields nth_Cons_0 nth_Cons_Suc ex_window_values)
  then show ?thesis
    unfolding ex_day1 snd_conv by (intro conjI)
qed

section \<open>The calibration window is not checked\<close>

text \<open>
  C3 says that a calibration window of 0 makes the run raise a validation error before
  the model is invoked. The script has no such check: with \<^verbatim>\<open>--calibration_window 0\<close>
  the small run calls the model for both days, each time with a window of 0, and prints
  both progress lines.
\<close>

theorem zero_calibration_window_counterexample:
  "calibration_window ex_args_cw0 = 0 \<and>
   map call_calibration_window (model_calls (snd (main ex_toolbox (Inr ex_args_cw0) w_init))) = [0, 0] \<and>
   map call_next_day_date (model_calls (snd (main ex_toolbox (Inr ex_args_cw0) w_init))) = [24, 48] \<and>
   stdout (snd (main ex_toolbox (Inr ex_args_cw0) w_init)) = [Progress 24 25 2, Progress 48 25 2]"
  by (simp add: ex_main ex_w2_fields ex_args_cw0_def)

text \<open>
  C3, as the script has it: \<open>main\<close> does not examine the calibration window. Every model
  call it makes carries \<^verbatim>\<open>args.calibration_window\<close> unchanged, whatever its value.
\<close>

theorem calibration_window_passed_unchanged:
  "take (length (model_calls w)) (model_calls (snd (main tb (Inr a) w))) = model_calls w \<and>
   (\<forall>c\<in>set (drop (length (model_calls w)) (model_calls (snd (main tb (Inr a) w)))).
      call_calibration_window c = calibration_window a)"
  using main_run_rel [of a w tb] by (auto simp: run_rel_def)

theorem calibration_window_passed_unchanged_witness:
  "length (model_calls (snd (main ex_toolbox (Inr ex_args_cw0) w_init))) = 2 \<and>
   call_calibration_window (model_calls (snd (main ex_toolbox (Inr ex_args_cw0) w_init)) ! 1) = 0"
proof -
  have len: "length (model_calls (snd (main ex_toolbox (Inr ex_args_cw0) w_init))) = 2"
    using ex_w2_fields(4) [of ex_args_cw0, THEN arg_cong, of length] by (simp add: ex_main)
  then have "model_calls (snd (main ex_toolbox (Inr ex_args_cw0) w_init)) ! 1
      \<in> set (drop (length (model_calls (w_init :: unit world)))
               (model_calls (snd (main ex_toolbox (Inr ex_args_cw0) w_init))))"
    by (simp add: w_init_fields)
  with calibration_window_passed_unchanged [of w_init ex_toolbox ex_args_cw0]
  have "call_calibration_window (model_calls (snd (main ex_toolbox (Inr ex_args_cw0) w_init)) ! 1) =
      calibration_window ex_args_cw0"
    by blast
  with len show ?thesis
    by (simp add: ex_args_cw0_def)
qed

section \<open>Test data that is not a whole number of days\<close>

text \<open>
  C4 says that test data with a missing hour raises a data alignment error before the
  loop starts. In the script what is raised is the ValueError of \<^verbatim>\<open>reshape(-1, 24)\<close>,
  and the \<^verbatim>\<open>except\<close> clause of \<open>main\<close> catches it: with 47 rows of test data \<open>main\<close>
  prints that error and returns normally.
\<close>

theorem ragged_run_returns_normally_counterexample:
  "length (butlast ex_test) = 47 \<and>
   fst (main ex_toolbox_ragged (Inr ex_args) w_init) = Inr () \<and>
   stdout (snd (main ex_toolbox_ragged (Inr ex_args) w_init)) =
     [ErrorOccurred ValueError_reshape]"
  using main_try_ragged [OF ex_ragged, of "w_init\<lparr>logging := logging w_init @ [Info (FuncStart ''main'')]\<rparr>"]
  by (simp add: main_eq w_init_fields length_ex_test)

text \<open>
  C4, as the script has it. When the test data does not have a multiple of 24 rows, the
  \<^verbatim>\<open>reshape(-1, 24)\<close> of line 125 raises ValueError before the loop starts: no model
  object has been built, no model call has been made, and the forecast matrix that was
  just created has all its rows unwritten. \<open>main\<close> catches the error: the one line it
  prints is the error message, and it returns normally.
\<close>

theorem ragged_test_data_stops_before_loop:
  assumes "read_data tb (dataset a) (years_test a) ''./datasets'' (begin_test_date a)
             (end_test_date a) = Inr (train, test)"
    and "length test mod 24 \<noteq> 0"
  shows "fst (main tb (Inr a) w) = Inr () \<and>
     stdout (snd (main tb (Inr a) w)) = stdout w @ [ErrorOccurred ValueError_reshape] \<and>
     model_calls (snd (main tb (Inr a) w)) = model_calls w \<and>
     models (snd (main tb (Inr a) w)) = models w \<and>
     mats (snd (main tb (Inr a) w)) = mats w @
       [\<lparr>index = every24 (map ts test), columns = h_columns,
         rows = replicate (length (every24 (map ts test))) (replicate 24 None)\<rparr>]"
  using main_try_ragged [OF assms, of "w\<lparr>logging := logging w @ [Info (FuncStart ''main'')]\<rparr>"]
  by (simp add: main_eq forecast0_def)

theorem ragged_test_data_stops_before_loop_witness:
  "fst (main ex_toolbox_ragged (Inr ex_args) w_init) = Inr () \<and>
   model_calls (snd (main ex_toolbox_ragged (Inr ex_args) w_init)) = [] \<and>
   models (snd (main ex_toolbox_ragged (Inr ex_args) w_init)) = []"
  using ragged_test_data_stops_before_loop [OF ex_ragged, of w_init]
  by (simp add: w_init_fields)

section \<open>The forecast file\<close>

text \<open>
  C8. The forecast matrix is to be persisted as a file, one row per test day and the
  columns h0 to h23. The script computes the path of that file and never writes it: the
  small run completes, both rows of the forecast matrix are filled, the path is
  \<^verbatim>\<open>./experimental_files/fc_nl_datPJM_YT2_CW1456.csv\<close>, and no file exists at the end.
\<close>

theorem forecast_file_never_written:
  "fst (main ex_toolbox (Inr ex_args) w_init) = Inr () \<and>
   stdout (snd (main ex_toolbox (Inr ex_args) w_init)) = [Progress 24 25 2, Progress 48 25 2] \<and>
   mats (snd (main ex_toolbox (Inr ex_args) w_init)) = [ex_forecast2, real_values0 ex_test] \<and>
   fst (create_forecast_file_path ex_args (w_init :: unit world)) =
     Inr ''./experimental_files/fc_nl_datPJM_YT2_CW1456.csv'' \<and>
   files (snd (main ex_toolbox (Inr ex_args) w_init)) = []"
proof -
  have "str_int 2 = ''2''" "str_int 1456 = ''1456''"
    by code_simp+
  then have "fst (create_forecast_file_path ex_args (w_init :: unit world)) =
     Inr ''./experimental_files/fc_nl_datPJM_YT2_CW1456.csv''"
    by (simp add: create_forecast_file_path_eq ex_args_def)
  then show ?thesis
    by (simp add: ex_main ex_w2_fields)
qed

section \<open>Errors are reported, not propagated\<close>





section \<open>A forecast of the wrong length\<close>

lemma loc_set_row_misfit:
  assumes "length Yp \<noteq> length (columns m)" and "length Yp \<noteq> 1"
  shows "loc_set_row m d Yp = Inl ValueError_setitem"
  using assms by (simp add: loc_set_row_def Let_def)

lemma w_called_fields:
  "mats (w_called tb a tr te mo d w) = mats w"
  "stdout (w_called tb a tr te mo d w) = stdout w"
  "files (w_called tb a tr te mo d w) = files w"
  "model_calls (w_called tb a tr te mo d w) = model_calls w @
     [\<lparr>call_df = available_window (frames w ! tr) (frames w ! te) d,
       call_next_day_date = d, call_calibration_window = calibration_window a,
       call_result = fst (the_call tb a tr te mo d w)\<rparr>]"
  by (simp_all add: w_simps)

lemma ex_tb_short [simp]:
  "recalibrate_and_forecast_next_day ex_toolbox_short s df d cw =
     (Inr (replicate (if d = 24 then 24 else 23) (Some 12)), s)"
  "MAE ex_toolbox_short p q = Inr 2" "sMAPE ex_toolbox_short p q = Inr (1 / 4)"
  "LEAR ex_toolbox_short cw = Inr ()"
  "read_data ex_toolbox_short ds yt pth b e = Inr (ex_train, ex_test)"
  by (simp_all add: ex_toolbox_short_def ex_toolbox_def)

lemma ex_v1_fields:
  "frames (ex_v1 a) = [ex_train, ex_test, available_window ex_train ex_test 24]"
  "mats (ex_v1 a) = [ex_forecast1, real_values0 ex_test]"
  "models (ex_v1 a) = [()]" "stdout (ex_v1 a) = [Progress 24 25 2]"
  "map call_result (model_calls (ex_v1 a)) = [Inr (replicate 24 (Some 12))]"
  "map call_next_day_date (model_calls (ex_v1 a)) = [24]"
  by (simp_all add: ex_v1_def w_simps ex_w0_fields the_call_def)

lemma ex_short_day1:
  "process_date ex_toolbox_short a 0 (Suc 0) 0 (Suc 0) 0 24 (ex_w0 a) = (Inr (), ex_v1 a)"
  unfolding ex_v1_def
  by (rule pd_reported [where Yp = "replicate 24 (Some 12)"])
     (simp_all add: ex_w0_fields the_call_def ex_write1)

lemma ex_short_call2:
  "fst (the_call ex_toolbox_short a 0 (Suc 0) 0 48 (ex_v1 a)) = Inr (replicate 23 (Some 12))"
  by (simp add: the_call_def)

lemma ex_short_day2:
  "process_date ex_toolbox_short a 0 (Suc 0) 0 (Suc 0) 0 48 (ex_v1 a) =
     (Inl ValueError_setitem, ex_v2 a)"
  unfolding ex_v2_def
  by (rule pd_write_failed [where Yp = "replicate 23 (Some 12)"])
     (simp_all add: ex_v1_fields ex_short_call2 loc_set_row_misfit ex_forecast1_def
        ex_forecast_def length_h_columns)

lemma ex_v2_fields:
  "mats (ex_v2 a) = [ex_forecast1, real_values0 ex_test]"
  "stdout (ex_v2 a) = [Progress 24 25 2]"
  "map call_result (model_calls (ex_v2 a)) =
     [Inr (replicate 24 (Some 12)), Inr (replicate 23 (Some 12))]"
  by (simp_all add: ex_v2_def w_called_fields ex_v1_fields ex_short_call2)

lemma ex_short_main_try:
  "main_try ex_toolbox_short (Inr a) (w_init\<lparr>logging := [Info (FuncStart ''main'')]\<rparr>) =
     (Inl ValueError_setitem, ex_v2 a)"
  by (simp add: main_try_ready [where train = ex_train and test = ex_test and m = "()"]
      length_ex_test every24_ex_test w_init_fields bindM_def returnM_def logging_info_def
      ex_short_day1 ex_short_day2 ex_w0_def [symmetric])

text \<open>
  C2 says that a model answer of other than 24 values makes the run fail with an error
  that the engine does not swallow. In the script the row assignment raises, and the
  \<^verbatim>\<open>except\<close> clause of \<open>main\<close> catches it: when the model answers 23 values on the
  second day of the small run, \<open>main\<close> prints the error and returns normally.
\<close>

theorem short_forecast_swallowed_counterexample:
  "map call_result (model_calls (snd (main ex_toolbox_short (Inr ex_args) w_init))) =
     [Inr (replicate 24 (Some 12)), Inr (replicate 23 (Some 12))] \<and>
   fst (main ex_toolbox_short (Inr ex_args) w_init) = Inr () \<and>
   stdout (snd (main ex_toolbox_short (Inr ex_args) w_init)) =
     [Progress 24 25 2, ErrorOccurred ValueError_setitem]"
  using ex_short_main_try [of ex_args]
  by (simp add: main_eq w_init_fields ex_v2_fields)

text \<open>
  C2, as the script has it: when the model answers, for a day \<open>d\<close>, a number of values
  that is neither 24 nor 1, the assignment to the 24 columns of the row raises
  ValueError. The loop ends there, whatever days remain: no matrix has changed, so the
  row of \<open>d\<close> is unwritten and the rows written before are kept, no progress line is
  printed for \<open>d\<close>, and the call for \<open>d\<close> is the last model call. \<open>main\<close> returns
  normally all the same.
\<close>

theorem misfit_forecast_stops_run:
  assumes "tr < length (frames w)" and "te < length (frames w)" and "mo < length (models w)"
    and "fc < length (mats w)"
    and "fst (the_call tb a tr te mo d w) = Inr Yp"
    and "length (columns (mats w ! fc)) = 24" and "length Yp \<noteq> 24" and "length Yp \<noteq> 1"
  shows "fst (for_dates tb a tr te fc rv mo (d # ds) w) = Inl ValueError_setitem \<and>
     mats (snd (for_dates tb a tr te fc rv mo (d # ds) w)) = mats w \<and>
     stdout (snd (for_dates tb a tr te fc rv mo (d # ds) w)) = stdout w \<and>
     map call_next_day_date (model_calls (snd (for_dates tb a tr te fc rv mo (d # ds) w))) =
       map call_next_day_date (model_calls w) @ [d] \<and>
     fst (main tb (Inr a) w0) = Inr ()"
proof -
  have "loc_set_row (mats w ! fc) d Yp = Inl ValueError_setitem"
    using assms(6-8) by (simp add: loc_set_row_misfit)
  then have "process_date tb a tr te fc rv mo d w =
      (Inl ValueError_setitem, w_called tb a tr te mo d w)"
    using assms(1-5) by (simp add: pd_write_failed)
  then show ?thesis
    by (simp add: bindM_def w_called_fields main_returns)
qed

theorem misfit_forecast_stops_run_witness:
  "fst (for_dates ex_toolbox_short ex_args 0 (Suc 0) 0 (Suc 0) 0 [48] (ex_v1 ex_args)) =
     Inl ValueError_setitem \<and>
   mats (snd (for_dates ex_toolbox_short ex_args 0 (Suc 0) 0 (Suc 0) 0 [48] (ex_v1 ex_args))) =
     [ex_forecast1, real_values0 ex_test] \<and>
   fst (main ex_toolbox_short (Inr ex_args) w_init) = Inr ()"
  using misfit_forecast_stops_run [where tr = 0 and w = "ex_v1 ex_args" and te = "Suc 0"
      and mo = 0 and fc = 0 and tb = ex_toolbox_short and a = ex_args and d = 48
      and Yp = "replicate 23 (Some 12)" and rv = "Suc 0" and ds = "[]" and ?w0.0 = w_init]
  by (simp add: ex_v1_fields ex_short_call2 ex_forecast1_def ex_forecast_def length_h_columns)

section \<open>The running metrics\<close>




lemma loc_set_row_shape:
  assumes "loc_set_row m d Yp = Inr m'" and "d \<in> set (index m)"
    and "length (rows m) = length (index m)"
  shows "index m' = index m \<and> columns m' = columns m \<and> length (rows m') = length (index m)"
  using assms by (auto simp: loc_set_row_def Let_def split: if_splits)





section \<open>Rows are written once, in the order of the days\<close>

lemma loc_set_row_rows:
  assumes "loc_set_row m d Yp = Inr m'" and "d \<in> set (index m)"
    and "length (rows m) = length (index m)" and "j < length (index m)"
  shows "rows m' ! j =
    (if index m ! j = d then stored_row (length (columns m)) Yp else rows m ! j)"
  using assms by (auto simp: loc_set_row_def Let_def stored_row_def split: if_splits)

lemma process_date_step:
  assumes run: "process_date tb a tr te fc rv mo d w = (r1, w1)"
  obtains (unwritten) e where "r1 = Inl e" "mats w1 = mats w"
      "take (length (model_calls w)) (model_calls w1) = model_calls w"
  | (written) Yp F' c where "fc < length (mats w)" "loc_set_row (mats w ! fc) d Yp = Inr F'"
      "mats w1 = (mats w)[fc := F']" "model_calls w1 = model_calls w @ [c]"
      "call_result c = Inr Yp" "call_next_day_date c = d"
  using run
proof (cases rule: process_date_cases)
  case no_frames
  then show ?thesis using unwritten by (simp add: w_simps)
next
  case no_model
  then show ?thesis using unwritten by (simp add: w_simps)
next
  case (model_raised e)
  then show ?thesis using unwritten by (simp add: w_simps)
next
  case (no_forecast Yp)
  then show ?thesis using unwritten by (simp add: w_simps)
next
  case (write_failed Yp e)
  then show ?thesis using unwritten by (simp add: w_simps)
next
  case (metric_failed Yp F' e)
  then show ?thesis using written [of Yp F'] by (simp add: w_simps)
next
  case (reported Yp F' mae s)
  then show ?thesis using written [of Yp F'] by (simp add: w_simps)
qed

lemma take_eq_length:
  assumes "take (length xs) ys = xs"
  shows "length xs \<le> length ys"
proof -
  have "length (take (length xs) ys) = length xs"
    using assms by simp
  then show ?thesis
    by simp
qed

lemma ex_loop:
  "for_dates ex_toolbox a 0 (Suc 0) 0 (Suc 0) 0 [24, 48] (ex_w0 a) = (Inr (), ex_w2 a)"
  by (simp add: bindM_def returnM_def ex_day1 ex_day2)

lemma ex_w2_calls:
  "model_calls (ex_w2 a) =
     [\<lparr>call_df = available_window ex_train ex_test 24, call_next_day_date = 24,
       call_calibration_window = calibration_window a,
       call_result = Inr (replicate 24 (Some 12))\<rparr>,
      \<lparr>call_df = available_window ex_train ex_test 48, call_next_day_date = 48,
       call_calibration_window = calibration_window a,
       call_result = Inr (replicate 24 (Some 12))\<rparr>]"
  by (simp add: ex_w2_def ex_w1_def w_simps ex_w0_fields the_call_def)

text \<open>
  C6. Let the loop run over distinct days \<open>ds\<close> of the forecast index and stop, at its end
  or at an exception. Then there is a \<open>k\<close> such that the rows written are those of the
  first \<open>k\<close> days, a prefix of \<open>ds\<close> without gaps, and all of \<open>ds\<close> when the loop
  completes: every row whose day is not among the first \<open>k\<close> is as it was, and the row
  of the \<open>i\<close>-th day, \<open>i < k\<close>, holds what the model answered in the \<open>i\<close>-th call, the one
  made for that day, so no later day has written it again. A state during the run is
  the state after the loop over a prefix of \<open>ds\<close>, to which the statement applies as well.
\<close>

theorem rows_written_once_in_order:
  assumes "for_dates tb a tr te fc rv mo ds w = (r, w')"
    and "fc < length (mats w)" and "distinct ds"
    and "set ds \<subseteq> set (index (mats w ! fc))"
    and "length (rows (mats w ! fc)) = length (index (mats w ! fc))"
  shows "\<exists>k\<le>length ds.
     (r = Inr () \<longrightarrow> k = length ds) \<and>
     length (mats w') = length (mats w) \<and>
     index (mats w' ! fc) = index (mats w ! fc) \<and>
     columns (mats w' ! fc) = columns (mats w ! fc) \<and>
     length (rows (mats w' ! fc)) = length (index (mats w ! fc)) \<and>
     take (length (model_calls w)) (model_calls w') = model_calls w \<and>
     length (model_calls w) + k \<le> length (model_calls w') \<and>
     (\<forall>j<length (index (mats w ! fc)).
        index (mats w ! fc) ! j \<notin> set (take k ds) \<longrightarrow>
        rows (mats w' ! fc) ! j = rows (mats w ! fc) ! j) \<and>
     (\<forall>i<k. call_next_day_date (model_calls w' ! (length (model_calls w) + i)) = ds ! i \<and>
        (\<exists>Yp. call_result (model_calls w' ! (length (model_calls w) + i)) = Inr Yp \<and>
           (\<forall>j<length (index (mats w ! fc)).
              index (mats w ! fc) ! j = ds ! i \<longrightarrow>
              rows (mats w' ! fc) ! j = stored_row (length (columns (mats w ! fc))) Yp)))"
  using assms
proof (induction ds arbitrary: w)
  case Nil
  then show ?case by (simp add: returnM_def)
next
  case (Cons d ds)
  let ?F = "mats w ! fc"
  obtain r1 w1 where step: "process_date tb a tr te fc rv mo d w = (r1, w1)"
    by (cases "process_date tb a tr te fc rv mo d w")
  from step show ?case
  proof (cases rule: process_date_step)
    case (unwritten e)
    with step Cons.prems(1) have "r = Inl e" "w' = w1"
      by (simp_all add: bindM_def)
    with unwritten Cons.prems take_eq_length [OF unwritten(3)] show ?thesis
      by (intro exI [of _ 0]) simp
  next
    case (written Yp F' c)
    have d_in: "d \<in> set (index ?F)"
      using Cons.prems(4) by simp
    note len = Cons.prems(5)
    from loc_set_row_shape [OF written(2) d_in len]
    have shape: "index F' = index ?F" "columns F' = columns ?F"
      "length (rows F') = length (index ?F)"
      by simp_all
    have rowsF': "\<And>j. j < length (index ?F) \<Longrightarrow>
        rows F' ! j = (if index ?F ! j = d then stored_row (length (columns ?F)) Yp else rows ?F ! j)"
      using loc_set_row_rows [OF written(2) d_in len] by simp
    have F1: "mats w1 ! fc = F'" and len1: "length (mats w1) = length (mats w)"
      using written(1,3) by simp_all
    show ?thesis
    proof (cases r1)
      case (Inl e)
      with step Cons.prems(1) have fin: "r = Inl e" "w' = w1"
        by (simp_all add: bindM_def)
      show ?thesis
        using fin written(4,5,6) F1 len1 shape rowsF'
        by (intro exI [of _ 1]) (auto simp: nth_append)
    next
      case (Inr u)
      with step Cons.prems(1) have rest: "for_dates tb a tr te fc rv mo ds w1 = (r, w')"
        by (simp add: bindM_def)
      have "\<exists>k\<le>length ds.
         (r = Inr () \<longrightarrow> k = length ds) \<and>
         length (mats w') = length (mats w1) \<and>
         index (mats w' ! fc) = index (mats w1 ! fc) \<and>
         columns (mats w' ! fc) = columns (mats w1 ! fc) \<and>
         length (rows (mats w' ! fc)) = length (index (mats w1 ! fc)) \<and>
         take (length (model_calls w1)) (model_calls w') = model_calls w1 \<and>
         length (model_calls w1) + k \<le> length (model_calls w') \<and>
         (\<forall>j<length (index (mats w1 ! fc)).
            index (mats w1 ! fc) ! j \<notin> set (take k ds) \<longrightarrow>
            rows (mats w' ! fc) ! j = rows (mats w1 ! fc) ! j) \<and>
         (\<forall>i<k. call_next_day_date (model_calls w' ! (length (model_calls w1) + i)) = ds ! i \<and>
            (\<exists>Yp. call_result (model_calls w' ! (length (model_calls w1) + i)) = Inr Yp \<and>
               (\<forall>j<length (index (mats w1 ! fc)).
                  index (mats w1 ! fc) ! j = ds ! i \<longrightarrow>
                  rows (mats w' ! fc) ! j = stored_row (length (columns (mats w1 ! fc))) Yp)))"
        using Cons.prems(2,3,4) F1 len1 shape
        by (intro Cons.IH [OF rest]) simp_all
      then obtain k where k: "k \<le> length ds" "r = Inr () \<longrightarrow> k = length ds"
        "length (mats w') = length (mats w)"
        "index (mats w' ! fc) = index ?F" "columns (mats w' ! fc) = columns ?F"
        "length (rows (mats w' ! fc)) = length (index ?F)"
        "take (length (model_calls w1)) (model_calls w') = model_calls w1"
        "length (model_calls w1) + k \<le> length (model_calls w')"
        and keep: "\<And>j. j < length (index ?F) \<Longrightarrow> index ?F ! j \<notin> set (take k ds) \<Longrightarrow>
            rows (mats w' ! fc) ! j = rows F' ! j"
        and own: "\<And>i. i < k \<Longrightarrow>
            call_next_day_date (model_calls w' ! (length (model_calls w1) + i)) = ds ! i \<and>
            (\<exists>Yp. call_result (model_calls w' ! (length (model_calls w1) + i)) = Inr Yp \<and>
               (\<forall>j<length (index ?F). index ?F ! j = ds ! i \<longrightarrow>
                  rows (mats w' ! fc) ! j = stored_row (length (columns ?F)) Yp))"
        using F1 len1 shape by auto
      have calls1: "length (model_calls w1) = Suc (length (model_calls w))"
        using written(4) by simp
      have c0: "model_calls w' ! length (model_calls w) = c"
      proof -
        have "model_calls w' ! length (model_calls w) =
            take (length (model_calls w1)) (model_calls w') ! length (model_calls w)"
          using calls1 by simp
        also have "\<dots> = c"
          using k(7) written(4) by simp
        finally show ?thesis .
      qed
      have d_fresh: "d \<notin> set (take k ds)"
        using Cons.prems(3) by (auto dest: in_set_takeD)
      have pre: "take (length (model_calls w)) (model_calls w') = model_calls w"
      proof -
        have "take (length (model_calls w)) (model_calls w') =
            take (length (model_calls w)) (take (length (model_calls w1)) (model_calls w'))"
          using calls1 by (simp add: min_def)
        also have "\<dots> = model_calls w"
          using k(7) written(4) by simp
        finally show ?thesis .
      qed
      have untouched: "\<forall>j<length (index ?F).
          index ?F ! j \<notin> set (take (Suc k) (d # ds)) \<longrightarrow>
          rows (mats w' ! fc) ! j = rows ?F ! j"
        using keep rowsF' by auto
      have mine: "\<forall>i<Suc k.
          call_next_day_date (model_calls w' ! (length (model_calls w) + i)) = (d # ds) ! i \<and>
          (\<exists>Yp. call_result (model_calls w' ! (length (model_calls w) + i)) = Inr Yp \<and>
             (\<forall>j<length (index ?F). index ?F ! j = (d # ds) ! i \<longrightarrow>
                rows (mats w' ! fc) ! j = stored_row (length (columns ?F)) Yp))"
      proof (intro allI impI)
        fix i assume i: "i < Suc k"
        show "call_next_day_date (model_calls w' ! (length (model_calls w) + i)) = (d # ds) ! i \<and>
          (\<exists>Yp. call_result (model_calls w' ! (length (model_calls w) + i)) = Inr Yp \<and>
             (\<forall>j<length (index ?F). index ?F ! j = (d # ds) ! i \<longrightarrow>
                rows (mats w' ! fc) ! j = stored_row (length (columns ?F)) Yp))"
        proof (cases i)
          case 0
          have "\<forall>j<length (index ?F). index ?F ! j = d \<longrightarrow>
              rows (mats w' ! fc) ! j = stored_row (length (columns ?F)) Yp"
            using keep rowsF' d_fresh by auto
          with 0 c0 written(5,6) show ?thesis
            by auto
        next
          case (Suc i')
          with i have "i' < k" by simp
          from own [OF this] Suc calls1 show ?thesis
            by simp
        qed
      qed
      show ?thesis
        using k(1-6,8) pre untouched mine calls1
        by (intro exI [of _ "Suc k"]) simp
    qed
  qed
qed

theorem rows_written_once_in_order_witness:
  "rows (mats (snd (for_dates ex_toolbox ex_args 0 (Suc 0) 0 (Suc 0) 0 [24, 48]
      (ex_w0 ex_args))) ! 0) ! 0 = replicate 24 (Some 12)"
proof -
  have hyps: "0 < length (mats (ex_w0 ex_args))" "distinct [24, 48 :: int]"
    "set [24, 48] \<subseteq> set (index (mats (ex_w0 ex_args) ! 0))"
    "length (rows (mats (ex_w0 ex_args) ! 0)) = length (index (mats (ex_w0 ex_args) ! 0))"
    by (simp_all add: ex_w0_fields ex_forecast_def)
  from rows_written_once_in_order [OF ex_loop hyps]
  obtain k where k: "Inr () = (Inr () :: exn + unit) \<longrightarrow> k = length [24, 48 :: int]"
    and own: "\<forall>i<k. call_next_day_date (model_calls (ex_w2 ex_args) !
               (length (model_calls (ex_w0 ex_args)) + i)) = [24, 48] ! i \<and>
        (\<exists>Yp. call_result (model_calls (ex_w2 ex_args) !
               (length (model_calls (ex_w0 ex_args)) + i)) = Inr Yp \<and>
           (\<forall>j<length (index (mats (ex_w0 ex_args) ! 0)).
              index (mats (ex_w0 ex_args) ! 0) ! j = [24, 48] ! i \<longrightarrow>
              rows (mats (ex_w2 ex_args) ! 0) ! j =
                stored_row (length (columns (mats (ex_w0 ex_args) ! 0))) Yp))"
    by (elim exE conjE)
  from k have "0 < k"
    by simp
  from own have "0 < k \<longrightarrow>
        call_next_day_date (model_calls (ex_w2 ex_args) !
               (length (model_calls (ex_w0 ex_args)) + 0)) = [24, 48] ! 0 \<and>
        (\<exists>Yp. call_result (model_calls (ex_w2 ex_args) !
               (length (model_calls (ex_w0 ex_args)) + 0)) = Inr Yp \<and>
           (\<forall>j<length (index (mats (ex_w0 ex_args) ! 0)).
              index (mats (ex_w0 ex_args) ! 0) ! j = [24, 48] ! 0 \<longrightarrow>
              rows (mats (ex_w2 ex_args) ! 0) ! j =
                stored_row (length (columns (mats (ex_w0 ex_args) ! 0))) Yp))"
    by (rule spec)
  from this \<open>0 < k\<close> have "call_next_day_date (model_calls (ex_w2 ex_args) !
               (length (model_calls (ex_w0 ex_args)) + 0)) = [24, 48] ! 0 \<and>
        (\<exists>Yp. call_result (model_calls (ex_w2 ex_args) !
               (length (model_calls (ex_w0 ex_args)) + 0)) = Inr Yp \<and>
           (\<forall>j<length (index (mats (ex_w0 ex_args) ! 0)).
              index (mats (ex_w0 ex_args) ! 0) ! j = [24, 48] ! 0 \<longrightarrow>
              rows (mats (ex_w2 ex_args) ! 0) ! j =
                stored_row (length (columns (mats (ex_w0 ex_args) ! 0))) Yp))"
    by (rule mp)
  then obtain Yp where Yp: "call_result (model_calls (ex_w2 ex_args) !
               (length (model_calls (ex_w0 ex_args)) + 0)) = Inr Yp"
    and row: "\<forall>j<length (index (mats (ex_w0 ex_args) ! 0)).
              index (mats (ex_w0 ex_args) ! 0) ! j = [24, 48] ! 0 \<longrightarrow>
              rows (mats (ex_w2 ex_args) ! 0) ! j =
                stored_row (length (columns (mats (ex_w0 ex_args) ! 0))) Yp"
    by (elim conjE exE)
  from Yp have "Yp = replicate 24 (Some 12)"
    by (simp add: ex_w0_fields ex_w2_calls)
  moreover from row have "rows (mats (ex_w2 ex_args) ! 0) ! 0 = stored_row 24 Yp"
    by (simp add: ex_w0_fields ex_forecast_def length_h_columns)
  ultimately have "rows (mats (ex_w2 ex_args) ! 0) ! 0 = replicate 24 (Some 12)"
    by (simp add: stored_row_def)
  then show ?thesis
    by (simp only: ex_loop snd_conv)
qed

section \<open>No price of the day or of a later day reaches the model\<close>

lemma window_hides_future:
  assumes "sorted_wrt (<) (map ts (train @ test))" and "d \<in> ts ` set test"
    and "r \<in> set (available_window train test d)" and "d \<le> ts r"
  shows "price r = None"
proof -
  from assms(1,2) have before: "\<forall>x\<in>set train. ts x < d"
    by (auto simp: sorted_wrt_append)
  from assms(3)
  have "r \<in> (\<lambda>x. if d \<le> ts x \<and> ts x \<le> d + 23 then x\<lparr>price := None\<rparr> else x) `
      set (train @ loc_upto_frame test (d + 23))"
    by (simp only: available_window_def mask_price_def set_map)
  then obtain x where mem: "x \<in> set (train @ loc_upto_frame test (d + 23))"
    and r: "r = (if d \<le> ts x \<and> ts x \<le> d + 23 then x\<lparr>price := None\<rparr> else x)"
    by (rule imageE)
  from mem have x: "x \<in> set train \<or> (x \<in> set test \<and> ts x \<le> d + 23)"
    by (auto simp: loc_upto_frame_def)
  show ?thesis
  proof (cases "d \<le> ts x \<and> ts x \<le> d + 23")
    case True
    with r show ?thesis by simp
  next
    case False
    with r have "r = x" by simp
    with False x before assms(4) show ?thesis by auto
  qed
qed

lemma process_date_frames_grow:
  assumes "process_date tb a tr te fc rv mo d w = (r, w')"
  shows "\<exists>fs. frames w' = frames w @ fs"
  using assms by (cases rule: process_date_cases) (simp_all add: w_simps)

lemma for_dates_windows:
  assumes "for_dates tb a tr te fc rv mo ds w = (r, w')"
    and "tr < length (frames w)" and "te < length (frames w)"
  shows "(\<exists>fs. frames w' = frames w @ fs) \<and>
     (\<exists>cs. model_calls w' = model_calls w @ cs \<and>
        (\<forall>c\<in>set cs. call_next_day_date c \<in> set ds \<and>
           call_df c = available_window (frames w ! tr) (frames w ! te) (call_next_day_date c)))"
  using assms
proof (induction ds arbitrary: w)
  case Nil
  then show ?case by (simp add: returnM_def)
next
  case (Cons d ds)
  obtain r1 w1 where step: "process_date tb a tr te fc rv mo d w = (r1, w1)"
    by (cases "process_date tb a tr te fc rv mo d w")
  from process_date_frames_grow [OF step] obtain fs1 where fs1: "frames w1 = frames w @ fs1"
    by blast
  from process_date_calls [OF step] obtain cs1 where cs1: "model_calls w1 = model_calls w @ cs1"
    and good1: "\<forall>c\<in>set cs1. call_next_day_date c = d \<and>
        call_df c = available_window (frames w ! tr) (frames w ! te) d"
    by (elim disjE conjE) fastforce+
  show ?case
  proof (cases r1)
    case (Inl e)
    with step Cons.prems(1) have "w' = w1"
      by (simp add: bindM_def)
    with fs1 cs1 good1 show ?thesis
      by auto
  next
    case (Inr u)
    with step Cons.prems(1) have rest: "for_dates tb a tr te fc rv mo ds w1 = (r, w')"
      by (simp add: bindM_def)
    have same: "frames w1 ! tr = frames w ! tr" "frames w1 ! te = frames w ! te"
      using fs1 Cons.prems(2,3) by (simp_all add: nth_append)
    have "tr < length (frames w1)" "te < length (frames w1)"
      using fs1 Cons.prems(2,3) by simp_all
    from Cons.IH [OF rest this] same obtain fs cs where "frames w' = frames w1 @ fs"
      and "model_calls w' = model_calls w1 @ cs"
      and "\<forall>c\<in>set cs. call_next_day_date c \<in> set ds \<and>
           call_df c = available_window (frames w ! tr) (frames w ! te) (call_next_day_date c)"
      by auto
    with fs1 cs1 good1 show ?thesis
      by auto
  qed
qed

lemma ex_sorted: "sorted_wrt (<) (map ts (ex_train @ ex_test))"
  by code_simp

lemma ex_days: "set [24, 48] \<subseteq> ts ` set ex_test"
  by code_simp

text \<open>
  C1. Let the timestamps of the training data followed by the test data be strictly
  increasing, and let the loop run over days that are timestamps of the test data. Then
  every model call it makes is for one of these days, \<open>d\<close>, and is given this window: the
  training data, followed by the rows of the test data whose timestamp is at most the
  last hour of \<open>d\<close>, with the price of the rows in the 24 hours of \<open>d\<close> set to NaN. In that
  window every row whose timestamp is the first hour of \<open>d\<close> or later has no price.
\<close>

theorem causal_validity:
  assumes run: "for_dates tb a tr te fc rv mo ds w = (r, w')"
    and tr: "tr < length (frames w)" and te: "te < length (frames w)"
    and sorted: "sorted_wrt (<) (map ts (frames w ! tr @ frames w ! te))"
    and days: "set ds \<subseteq> ts ` set (frames w ! te)"
  shows "\<exists>cs. model_calls w' = model_calls w @ cs \<and>
     (\<forall>c\<in>set cs. call_next_day_date c \<in> set ds \<and>
        call_df c =
          map (\<lambda>x. if call_next_day_date c \<le> ts x \<and> ts x \<le> call_next_day_date c + 23
                   then x\<lparr>price := None\<rparr> else x)
            (frames w ! tr @
               filter (\<lambda>x. ts x \<le> call_next_day_date c + 23) (frames w ! te)) \<and>
        (\<forall>x\<in>set (call_df c). call_next_day_date c \<le> ts x \<longrightarrow> price x = None))"
proof -
  from for_dates_windows [OF run tr te] obtain cs where cs: "model_calls w' = model_calls w @ cs"
    and good: "\<forall>c\<in>set cs. call_next_day_date c \<in> set ds \<and>
           call_df c = available_window (frames w ! tr) (frames w ! te) (call_next_day_date c)"
    by blast
  have hidden: "\<forall>x\<in>set (call_df c). call_next_day_date c \<le> ts x \<longrightarrow> price x = None"
    if "c \<in> set cs" for c
  proof (intro ballI impI)
    fix x assume x: "x \<in> set (call_df c)" "call_next_day_date c \<le> ts x"
    from good that have "call_next_day_date c \<in> ts ` set (frames w ! te)"
      and "call_df c = available_window (frames w ! tr) (frames w ! te) (call_next_day_date c)"
      using days by auto
    with window_hides_future [OF sorted] x show "price x = None"
      by simp
  qed
  have "call_next_day_date c \<in> set ds \<and>
        call_df c =
          map (\<lambda>x. if call_next_day_date c \<le> ts x \<and> ts x \<le> call_next_day_date c + 23
                   then x\<lparr>price := None\<rparr> else x)
            (frames w ! tr @
               filter (\<lambda>x. ts x \<le> call_next_day_date c + 23) (frames w ! te)) \<and>
        (\<forall>x\<in>set (call_df c). call_next_day_date c \<le> ts x \<longrightarrow> price x = None)"
    if "c \<in> set cs" for c
  proof -
    from good that have day: "call_next_day_date c \<in> set ds"
      and "call_df c = available_window (frames w ! tr) (frames w ! te) (call_next_day_date c)"
      by blast+
    then have "call_df c =
          map (\<lambda>x. if call_next_day_date c \<le> ts x \<and> ts x \<le> call_next_day_date c + 23
                   then x\<lparr>price := None\<rparr> else x)
            (frames w ! tr @
               filter (\<lambda>x. ts x \<le> call_next_day_date c + 23) (frames w ! te))"
      by (simp only: available_window_rows)
    with day hidden [OF that] show ?thesis
      by (intro conjI)
  qed
  with cs show ?thesis
    by blast
qed

theorem causal_validity_witness:
  "\<lparr>ts = 50, price = Some 20, exog = [Some 2]\<rparr> \<notin>
     set (call_df (model_calls (snd (for_dates ex_toolbox ex_args 0 (Suc 0) 0 (Suc 0) 0 [24, 48]
       (ex_w0 ex_args))) ! 1))"
proof -
  have hyps: "0 < length (frames (ex_w0 ex_args))" "Suc 0 < length (frames (ex_w0 ex_args))"
    "sorted_wrt (<) (map ts (frames (ex_w0 ex_args) ! 0 @ frames (ex_w0 ex_args) ! Suc 0))"
    "set [24, 48] \<subseteq> ts ` set (frames (ex_w0 ex_args) ! Suc 0)"
    using ex_sorted ex_days by (simp_all add: ex_w0_fields)
  from causal_validity [OF ex_loop hyps]
  obtain cs where cs: "model_calls (ex_w2 ex_args) = model_calls (ex_w0 ex_args) @ cs"
    and hidden: "\<forall>c\<in>set cs. call_next_day_date c \<in> set [24, 48] \<and>
        call_df c =
          map (\<lambda>x. if call_next_day_date c \<le> ts x \<and> ts x \<le> call_next_day_date c + 23
                   then x\<lparr>price := None\<rparr> else x)
            (frames (ex_w0 ex_args) ! 0 @
               filter (\<lambda>x. ts x \<le> call_next_day_date c + 23)
                 (frames (ex_w0 ex_args) ! Suc 0)) \<and>
        (\<forall>x\<in>set (call_df c). call_next_day_date c \<le> ts x \<longrightarrow> price x = None)"
    by (elim exE conjE)
  let ?c = "model_calls (ex_w2 ex_args) ! 1"
  from cs have "cs = model_calls (ex_w2 ex_args)"
    by (simp add: ex_w0_fields)
  then have "?c \<in> set cs" and date: "call_next_day_date ?c = 48"
    by (simp_all add: ex_w2_calls)
  with hidden have "\<forall>x\<in>set (call_df ?c). 48 \<le> ts x \<longrightarrow> price x = None"
    by fastforce
  then have "\<lparr>ts = 50, price = Some 20, exog = [Some 2]\<rparr> \<notin> set (call_df ?c)"
    by fastforce
  then show ?thesis
    unfolding ex_loop snd_conv .
qed

end
